theory Spec2Isabelle
  imports Complex_Main "HOL-Library.Monad_Syntax"
begin

section \<open>The FDTD simulator of \<open>src/simulator.ts\<close>\<close>

text \<open>
  Numbers. A TypeScript \<open>number\<close> that holds a field value, a time or a cell size is
  modelled as a \<^typ>\<open>real\<close>: rounding, infinities and NaN are outside this model. Where a
  statement divides by the cell size it therefore carries the hypothesis that the cell
  size is not zero (IEEE arithmetic gives an infinity or NaN there, HOL gives 0).
  A grid dimension is an \<^typ>\<open>int\<close> (it may be zero or negative: the source checks nothing),
  a loop counter or array index is a \<^typ>\<open>nat\<close>.

  Failure. An expression of the source that throws (a property read on \<open>undefined\<close>), or
  that yields \<open>undefined\<close> where a number is expected, has the value \<open>None\<close>.
\<close>

subsection \<open>Fields\<close>

type_synonym 'a Field3D = "'a list list list"
type_synonym ScalarField3D = "real Field3D"
type_synonym GridSize = "int \<times> int \<times> int"

text \<open>
  \<open>makeField3D(shape, getValue)\<close>: three nested counting loops, each pushing onto a fresh
  array. A loop \<open>for (let x = 0; x < n; x++)\<close> runs over \<open>[0..<nat n]\<close>.
\<close>

fun makeField3D :: "GridSize \<Rightarrow> (nat \<times> nat \<times> nat \<Rightarrow> 'a) \<Rightarrow> 'a Field3D" where
  "makeField3D (s0, s1, s2) getValue =
     map (\<lambda>x. map (\<lambda>y. map (\<lambda>z. getValue (x, y, z)) [0..<nat s2]) [0..<nat s1]) [0..<nat s0]"

text \<open>
  The read \<open>field[x][y][z]\<close>. In JavaScript \<open>field[x]\<close> out of range is \<open>undefined\<close>, the
  next index on it throws a TypeError, and an innermost index out of range yields
  \<open>undefined\<close>: in each of these cases there is no number, hence \<open>None\<close>.
\<close>

definition at3 :: "'a Field3D \<Rightarrow> nat \<Rightarrow> nat \<Rightarrow> nat \<Rightarrow> 'a option" where
  "at3 field x y z =
     (if x < length field then
        (if y < length (field ! x) then
           (if z < length (field ! x ! y) then Some (field ! x ! y ! z) else None)
         else None)
      else None)"

text \<open>The write \<open>field[x][y][z] = v\<close>, used by the source only at indices in range.\<close>

definition put3 :: "'a Field3D \<Rightarrow> nat \<Rightarrow> nat \<Rightarrow> nat \<Rightarrow> 'a \<Rightarrow> 'a Field3D" where
  "put3 field x y z v = field[x := (field ! x)[y := (field ! x ! y)[z := v]]]"

text \<open>A counting loop whose body may throw: the first failure ends the loop.\<close>

fun forEach :: "nat list \<Rightarrow> (nat \<Rightarrow> 's \<Rightarrow> 's option) \<Rightarrow> 's \<Rightarrow> 's option" where
  "forEach [] body s = Some s"
| "forEach (i # rest) body s =
     (case body i s of None \<Rightarrow> None | Some s' \<Rightarrow> forEach rest body s')"

subsection \<open>The layout adapter\<close>

text \<open>
  \<open>copyScalarFieldReverse(field)\<close>. The first loop nest allocates \<open>newField\<close>, zero-filled,
  with the dimensions \<open>field[0][0].length\<close>, \<open>field[0].length\<close>, \<open>field.length\<close>; its first
  loop test already reads \<open>field[0][0].length\<close>, which throws when \<open>field\<close> or \<open>field[0]\<close>
  is empty. The second loop nest stores \<open>field[x][y][z]\<close> at \<open>newField[z][y][x]\<close>.
\<close>

definition copyScalarFieldReverse :: "ScalarField3D \<Rightarrow> ScalarField3D option" where
  "copyScalarFieldReverse field =
     (case field of
        [] \<Rightarrow> None
      | field0 # _ \<Rightarrow>
          (case field0 of
             [] \<Rightarrow> None
           | field00 # _ \<Rightarrow>
               (let newField =
                      map (\<lambda>x. map (\<lambda>y. map (\<lambda>z. 0) [0..<length field]) [0..<length field0])
                        [0..<length field00]
                in forEach [0..<length field] (\<lambda>x.
                     forEach [0..<length field0] (\<lambda>y.
                       forEach [0..<length field00] (\<lambda>z nf.
                         do { v \<leftarrow> at3 field x y z; Some (put3 nf z y x v) })))
                     newField)))"

subsection \<open>The execution backend\<close>

text \<open>
  Modelled from the spec: the parallel execution backend (the library \<open>gpu.js\<close>) is not
  part of the repository. It returns a materialized array covering the whole index space
  (section 6 of the specification, item d); if a cell has no value the run fails as a
  whole, and no array is returned (section 7, item 3).
\<close>

definition materialize :: "'a option Field3D \<Rightarrow> 'a Field3D option" where
  "materialize cells = those (map (\<lambda>plane. those (map those plane)) cells)"

text \<open>
  Modelled from the spec: \<open>createKernel\<close> of the library \<open>gpu.js\<close>, which the constructor
  calls six times, is not part of the repository. Following sections 4.3 and 6 of the
  specification, a kernel created with \<open>output: [ox, oy, oz]\<close> runs the per-cell function
  once for every thread \<open>(x, y, z)\<close> with \<open>x < ox\<close>, \<open>y < oy\<close>, \<open>z < oz\<close> and returns the array
  in the backend's own axis order, the reverse of the field store's: the value of thread
  \<open>(x, y, z)\<close> is at \<open>result[z][y][x]\<close>. The model applies the kernel in the same step.
\<close>

fun createKernel :: "GridSize \<Rightarrow> (nat \<Rightarrow> nat \<Rightarrow> nat \<Rightarrow> real option) \<Rightarrow> ScalarField3D option" where
  "createKernel (ox, oy, oz) cell =
     materialize (makeField3D (oz, oy, ox) (\<lambda>(z, y, x). cell x y z))"

subsection \<open>The six stencil kernels\<close>

text \<open>
  Each kernel is the per-cell function of the source handed to \<open>createKernel\<close> with
  \<open>output: gridSize\<close> and the constant \<open>cellSize\<close>; \<open>this.thread\<close> is \<open>(x, y, z)\<close> and
  \<open>this.output\<close> is \<open>(ox, oy, oz)\<close>.
\<close>

fun updateMagneticX ::
  "GridSize \<Rightarrow> real \<Rightarrow> ScalarField3D \<Rightarrow> ScalarField3D \<Rightarrow> ScalarField3D \<Rightarrow> real
     \<Rightarrow> ScalarField3D option" where
  "updateMagneticX (ox, oy, oz) cellSize fieldY fieldZ magFieldX dt =
     createKernel (ox, oy, oz) (\<lambda>x y z. do {
       v \<leftarrow> (if int y + 1 \<ge> oy then Some 0 else at3 fieldZ x (y + 1) z);
       w \<leftarrow> (if int z + 1 \<ge> oz then Some 0 else at3 fieldY x y (z + 1));
       m \<leftarrow> at3 magFieldX x y z;
       fz \<leftarrow> at3 fieldZ x y z;
       fy \<leftarrow> at3 fieldY x y z;
       Some (m - dt * ((v - fz) - (w - fy)) / cellSize) })"

fun updateMagneticY ::
  "GridSize \<Rightarrow> real \<Rightarrow> ScalarField3D \<Rightarrow> ScalarField3D \<Rightarrow> ScalarField3D \<Rightarrow> real
     \<Rightarrow> ScalarField3D option" where
  "updateMagneticY (ox, oy, oz) cellSize fieldX fieldZ magFieldY dt =
     createKernel (ox, oy, oz) (\<lambda>x y z. do {
       u \<leftarrow> (if int x + 1 \<ge> ox then Some 0 else at3 fieldZ (x + 1) y z);
       w \<leftarrow> (if int z + 1 \<ge> oz then Some 0 else at3 fieldX x y (z + 1));
       m \<leftarrow> at3 magFieldY x y z;
       fx \<leftarrow> at3 fieldX x y z;
       fz \<leftarrow> at3 fieldZ x y z;
       Some (m - dt * ((w - fx) - (u - fz)) / cellSize) })"

fun updateMagneticZ ::
  "GridSize \<Rightarrow> real \<Rightarrow> ScalarField3D \<Rightarrow> ScalarField3D \<Rightarrow> ScalarField3D \<Rightarrow> real
     \<Rightarrow> ScalarField3D option" where
  "updateMagneticZ (ox, oy, oz) cellSize fieldX fieldY magFieldZ dt =
     createKernel (ox, oy, oz) (\<lambda>x y z. do {
       u \<leftarrow> (if int x + 1 \<ge> ox then Some 0 else at3 fieldY (x + 1) y z);
       v \<leftarrow> (if int y + 1 \<ge> oy then Some 0 else at3 fieldX x (y + 1) z);
       m \<leftarrow> at3 magFieldZ x y z;
       fy \<leftarrow> at3 fieldY x y z;
       fx \<leftarrow> at3 fieldX x y z;
       Some (m - dt * ((u - fy) - (v - fx)) / cellSize) })"

fun updateElectricX ::
  "GridSize \<Rightarrow> real \<Rightarrow> ScalarField3D \<Rightarrow> ScalarField3D \<Rightarrow> ScalarField3D \<Rightarrow> real
     \<Rightarrow> ScalarField3D option" where
  "updateElectricX (ox, oy, oz) cellSize fieldY fieldZ elFieldX dt =
     createKernel (ox, oy, oz) (\<lambda>x y z. do {
       v \<leftarrow> (if int y - 1 < 0 then Some 0 else at3 fieldZ x (y - 1) z);
       w \<leftarrow> (if int z - 1 < 0 then Some 0 else at3 fieldY x y (z - 1));
       e \<leftarrow> at3 elFieldX x y z;
       fz \<leftarrow> at3 fieldZ x y z;
       fy \<leftarrow> at3 fieldY x y z;
       Some (e + dt * ((fz - v) - (fy - w)) / cellSize) })"

fun updateElectricY ::
  "GridSize \<Rightarrow> real \<Rightarrow> ScalarField3D \<Rightarrow> ScalarField3D \<Rightarrow> ScalarField3D \<Rightarrow> real
     \<Rightarrow> ScalarField3D option" where
  "updateElectricY (ox, oy, oz) cellSize fieldX fieldZ elFieldY dt =
     createKernel (ox, oy, oz) (\<lambda>x y z. do {
       u \<leftarrow> (if int x - 1 < 0 then Some 0 else at3 fieldZ (x - 1) y z);
       w \<leftarrow> (if int z - 1 < 0 then Some 0 else at3 fieldX x y (z - 1));
       e \<leftarrow> at3 elFieldY x y z;
       fx \<leftarrow> at3 fieldX x y z;
       fz \<leftarrow> at3 fieldZ x y z;
       Some (e + dt * ((fx - w) - (fz - u)) / cellSize) })"

fun updateElectricZ ::
  "GridSize \<Rightarrow> real \<Rightarrow> ScalarField3D \<Rightarrow> ScalarField3D \<Rightarrow> ScalarField3D \<Rightarrow> real
     \<Rightarrow> ScalarField3D option" where
  "updateElectricZ (ox, oy, oz) cellSize fieldX fieldY elFieldZ dt =
     createKernel (ox, oy, oz) (\<lambda>x y z. do {
       u \<leftarrow> (if int x - 1 < 0 then Some 0 else at3 fieldY (x - 1) y z);
       v \<leftarrow> (if int y - 1 < 0 then Some 0 else at3 fieldX x (y - 1) z);
       e \<leftarrow> at3 elFieldZ x y z;
       fy \<leftarrow> at3 fieldY x y z;
       fx \<leftarrow> at3 fieldX x y z;
       Some (e + dt * ((fy - u) - (fx - v)) / cellSize) })"

subsection \<open>The simulator state\<close>

record SimulationData =
  time :: real
  electricFieldX :: ScalarField3D
  electricFieldY :: ScalarField3D
  electricFieldZ :: ScalarField3D
  magneticFieldX :: ScalarField3D
  magneticFieldY :: ScalarField3D
  magneticFieldZ :: ScalarField3D
  permittivity :: ScalarField3D
  permeability :: ScalarField3D

text \<open>
  An instance of the class \<open>FDTDSimulator\<close>: its \<open>data\<close>, and the two settings its six
  kernels were created with (\<open>output: gridSize\<close> and \<open>constants: {cellSize}\<close>).
\<close>

record FDTDSimulator =
  data :: SimulationData
  kernelOutput :: GridSize
  cellSize :: real

text \<open>
  The constructor. It has no \<open>throw\<close> and tests neither argument, so it always returns
  an instance; the result is an option only so that this can be said.
\<close>

definition newFDTDSimulator :: "GridSize \<Rightarrow> real \<Rightarrow> FDTDSimulator option" where
  "newFDTDSimulator gridSize cs =
     Some \<lparr> data = \<lparr> time = 0,
              electricFieldX = makeField3D gridSize (\<lambda>_. 0),
              electricFieldY = makeField3D gridSize (\<lambda>_. 0),
              electricFieldZ = makeField3D gridSize (\<lambda>_. 0),
              magneticFieldX = makeField3D gridSize (\<lambda>_. 0),
              magneticFieldY = makeField3D gridSize (\<lambda>_. 0),
              magneticFieldZ = makeField3D gridSize (\<lambda>_. 0),
              permittivity = makeField3D gridSize (\<lambda>_. 0),
              permeability = makeField3D gridSize (\<lambda>_. 0) \<rparr>,
            kernelOutput = gridSize,
            cellSize = cs \<rparr>"

subsection \<open>The two half-steps\<close>

text \<open>
  A call either returns or throws; in both cases it leaves a state behind, since each
  assignment to \<open>this.data\<close> that was reached before a throw has happened.
\<close>

datatype outcome = Returned | Threw

definition stepElectric :: "real \<Rightarrow> FDTDSimulator \<Rightarrow> outcome \<times> FDTDSimulator" where
  "stepElectric dt s0 =
     (case updateElectricX (kernelOutput s0) (cellSize s0) (magneticFieldY (data s0))
             (magneticFieldZ (data s0)) (electricFieldX (data s0)) dt
           \<bind> copyScalarFieldReverse of
        None \<Rightarrow> (Threw, s0)
      | Some ex \<Rightarrow>
          let s1 = s0\<lparr>data := (data s0)\<lparr>electricFieldX := ex\<rparr>\<rparr> in
          (case updateElectricY (kernelOutput s1) (cellSize s1) (magneticFieldX (data s1))
                  (magneticFieldZ (data s1)) (electricFieldY (data s1)) dt
                \<bind> copyScalarFieldReverse of
             None \<Rightarrow> (Threw, s1)
           | Some ey \<Rightarrow>
               let s2 = s1\<lparr>data := (data s1)\<lparr>electricFieldY := ey\<rparr>\<rparr> in
               (case updateElectricZ (kernelOutput s2) (cellSize s2) (magneticFieldX (data s2))
                       (magneticFieldY (data s2)) (electricFieldZ (data s2)) dt
                     \<bind> copyScalarFieldReverse of
                  None \<Rightarrow> (Threw, s2)
                | Some ez \<Rightarrow>
                    let s3 = s2\<lparr>data := (data s2)\<lparr>electricFieldZ := ez\<rparr>\<rparr> in
                    (Returned, s3\<lparr>data := (data s3)\<lparr>time := time (data s3) + dt / 2\<rparr>\<rparr>))))"

definition stepMagnetic :: "real \<Rightarrow> FDTDSimulator \<Rightarrow> outcome \<times> FDTDSimulator" where
  "stepMagnetic dt s0 =
     (case updateMagneticX (kernelOutput s0) (cellSize s0) (electricFieldY (data s0))
             (electricFieldZ (data s0)) (magneticFieldX (data s0)) dt
           \<bind> copyScalarFieldReverse of
        None \<Rightarrow> (Threw, s0)
      | Some hx \<Rightarrow>
          let s1 = s0\<lparr>data := (data s0)\<lparr>magneticFieldX := hx\<rparr>\<rparr> in
          (case updateMagneticY (kernelOutput s1) (cellSize s1) (electricFieldX (data s1))
                  (electricFieldZ (data s1)) (magneticFieldY (data s1)) dt
                \<bind> copyScalarFieldReverse of
             None \<Rightarrow> (Threw, s1)
           | Some hy \<Rightarrow>
               let s2 = s1\<lparr>data := (data s1)\<lparr>magneticFieldY := hy\<rparr>\<rparr> in
               (case updateMagneticZ (kernelOutput s2) (cellSize s2) (electricFieldX (data s2))
                       (electricFieldY (data s2)) (magneticFieldZ (data s2)) dt
                     \<bind> copyScalarFieldReverse of
                  None \<Rightarrow> (Threw, s2)
                | Some hz \<Rightarrow>
                    let s3 = s2\<lparr>data := (data s2)\<lparr>magneticFieldZ := hz\<rparr>\<rparr> in
                    (Returned, s3\<lparr>data := (data s3)\<lparr>time := time (data s3) + dt / 2\<rparr>\<rparr>))))"

text \<open>\<open>getData()\<close> returns the state as it is.\<close>

definition getData :: "FDTDSimulator \<Rightarrow> SimulationData" where
  "getData s = data s"

subsection \<open>Call sequences and shapes\<close>

text \<open>
  A caller issues half-steps one after another; a caller that catches a throw goes on
  with the state the throwing call left behind.
\<close>

datatype call = StepElectric real | StepMagnetic real

fun perform :: "call \<Rightarrow> FDTDSimulator \<Rightarrow> FDTDSimulator" where
  "perform (StepElectric dt) s = snd (stepElectric dt s)"
| "perform (StepMagnetic dt) s = snd (stepMagnetic dt s)"

fun performAll :: "call list \<Rightarrow> FDTDSimulator \<Rightarrow> FDTDSimulator" where
  "performAll [] s = s"
| "performAll (c # cs) s = performAll cs (perform c s)"

text \<open>One full leapfrog cycle is \<open>stepElectric(dt)\<close> followed by \<open>stepMagnetic(dt)\<close>.\<close>

fun cycles :: "nat \<Rightarrow> real \<Rightarrow> FDTDSimulator \<Rightarrow> FDTDSimulator" where
  "cycles 0 dt s = s"
| "cycles (Suc k) dt s = cycles k dt (snd (stepMagnetic dt (snd (stepElectric dt s))))"

text \<open>An array has shape \<open>[a][b][c]\<close>: \<open>a\<close> planes, each of \<open>b\<close> rows, each of \<open>c\<close> entries.\<close>

definition hasShape :: "nat \<Rightarrow> nat \<Rightarrow> nat \<Rightarrow> 'a Field3D \<Rightarrow> bool" where
  "hasShape a b c field \<longleftrightarrow>
     length field = a \<and> list_all (\<lambda>plane. length plane = b \<and> list_all (\<lambda>row. length row = c) plane) field"

fun hasGridShape :: "GridSize \<Rightarrow> 'a Field3D \<Rightarrow> bool" where
  "hasGridShape (nx, ny, nz) field = hasShape (nat nx) (nat ny) (nat nz) field"

definition gridShaped :: "FDTDSimulator \<Rightarrow> bool" where
  "gridShaped s \<longleftrightarrow>
     hasGridShape (kernelOutput s) (electricFieldX (data s)) \<and>
     hasGridShape (kernelOutput s) (electricFieldY (data s)) \<and>
     hasGridShape (kernelOutput s) (electricFieldZ (data s)) \<and>
     hasGridShape (kernelOutput s) (magneticFieldX (data s)) \<and>
     hasGridShape (kernelOutput s) (magneticFieldY (data s)) \<and>
     hasGridShape (kernelOutput s) (magneticFieldZ (data s)) \<and>
     hasGridShape (kernelOutput s) (permittivity (data s)) \<and>
     hasGridShape (kernelOutput s) (permeability (data s))"

text \<open>
  \<open>getData()\<close> hands out the simulator's own arrays, not copies: a caller that assigns
  \<open>getData().electricFieldZ[x][y][z] = v\<close> changes the state of the simulator.
\<close>

definition setElectricFieldZ :: "nat \<Rightarrow> nat \<Rightarrow> nat \<Rightarrow> real \<Rightarrow> FDTDSimulator \<Rightarrow> FDTDSimulator" where
  "setElectricFieldZ x y z v s =
     s\<lparr>data := (data s)\<lparr>electricFieldZ := put3 (electricFieldZ (data s)) x y z v\<rparr>\<rparr>"

definition setMagneticFieldZ :: "nat \<Rightarrow> nat \<Rightarrow> nat \<Rightarrow> real \<Rightarrow> FDTDSimulator \<Rightarrow> FDTDSimulator" where
  "setMagneticFieldZ x y z v s =
     s\<lparr>data := (data s)\<lparr>magneticFieldZ := put3 (magneticFieldZ (data s)) x y z v\<rparr>\<rparr>"

text \<open>
  The state of the boundary example: a simulator constructed on the grid \<open>(2, 2, 2)\<close> with
  cell size 1, in which the caller has then set \<open>Ez[0][1][1] = 5\<close>.
\<close>

definition boundaryExample :: FDTDSimulator where
  "boundaryExample = setElectricFieldZ 0 1 1 5 (the (newFDTDSimulator (2, 2, 2) 1))"

text \<open>Every entry of the array is the number 0.\<close>

definition zeroFilled :: "ScalarField3D \<Rightarrow> bool" where
  "zeroFilled field \<longleftrightarrow> list_all (list_all (list_all (\<lambda>v. v = 0))) field"

text \<open>
  The array of shape \<open>[a][b][c]\<close> whose entry at \<open>[i][j][k]\<close> is \<open>h i j k\<close>: the closed form
  in which the results below are stated.
\<close>

definition tab :: "nat \<Rightarrow> nat \<Rightarrow> nat \<Rightarrow> (nat \<Rightarrow> nat \<Rightarrow> nat \<Rightarrow> 'a) \<Rightarrow> 'a Field3D" where
  "tab a b c h = map (\<lambda>i. map (\<lambda>j. map (\<lambda>k. h i j k) [0..<c]) [0..<b]) [0..<a]"

section \<open>Arrays of a given shape\<close>

lemma makeField3D_tab:
  "makeField3D (nx, ny, nz) g = tab (nat nx) (nat ny) (nat nz) (\<lambda>x y z. g (x, y, z))"
  by (simp add: tab_def)

lemma tab_nth: "i < a \<Longrightarrow> j < b \<Longrightarrow> k < c \<Longrightarrow> tab a b c h ! i ! j ! k = h i j k"
  by (simp add: tab_def)

lemma tab_cong:
  "(\<And>i j k. i < a \<Longrightarrow> j < b \<Longrightarrow> k < c \<Longrightarrow> h i j k = h' i j k) \<Longrightarrow> tab a b c h = tab a b c h'"
  by (simp add: tab_def)

lemma hasShape_tab: "hasShape a b c (tab a b c h)"
  by (simp add: hasShape_def tab_def list_all_length)

lemma hasShape_eq_tab: "hasShape a b c f \<Longrightarrow> f = tab a b c (\<lambda>i j k. f ! i ! j ! k)"
  unfolding tab_def
  by (auto simp: hasShape_def list_all_length intro!: nth_equalityI)

lemma at3_hasShape:
  "hasShape a b c f \<Longrightarrow> i < a \<Longrightarrow> j < b \<Longrightarrow> k < c \<Longrightarrow> at3 f i j k = Some (f ! i ! j ! k)"
  by (auto simp: hasShape_def list_all_length at3_def)

lemma put3_tab:
  "i < a \<Longrightarrow> j < b \<Longrightarrow> k < c \<Longrightarrow>
   put3 (tab a b c h) i j k v = tab a b c (\<lambda>i' j' k'. if i' = i \<and> j' = j \<and> k' = k then v else h i' j' k')"
  unfolding tab_def put3_def
  by (auto intro!: nth_equalityI simp: nth_list_update)

lemma forEach_Some:
  "(\<And>i s. i \<in> set is \<Longrightarrow> body i s = Some (g i s)) \<Longrightarrow> forEach is body s = Some (fold g is s)"
  by (induction "is" arbitrary: s) auto

lemma forEach_invariant:
  assumes "forEach is body s = Some s'" and "P s"
    and "\<And>i t t'. i \<in> set is \<Longrightarrow> P t \<Longrightarrow> body i t = Some t' \<Longrightarrow> P t'"
  shows "P s'"
  using assms
proof (induction "is" arbitrary: s)
  case Nil
  then show ?case by simp
next
  case (Cons a rest)
  from Cons.prems(1) obtain t where t: "body a s = Some t" "forEach rest body t = Some s'"
    by (auto split: option.splits)
  have "P t" using Cons.prems(2,3) t(1) by auto
  with Cons.IH [OF t(2)] Cons.prems(3) show ?case by auto
qed

lemma fold_put3_inner:
  "n \<le> a \<Longrightarrow> j < b \<Longrightarrow> k < c \<Longrightarrow>
   fold (\<lambda>z nf. put3 nf z j k (F z)) [0..<n] (tab a b c h)
     = tab a b c (\<lambda>i' j' k'. if i' < n \<and> j' = j \<and> k' = k then F i' else h i' j' k')"
proof (induction n)
  case 0
  then show ?case by simp
next
  case (Suc n)
  then show ?case
    by (auto simp: put3_tab intro!: tab_cong)
qed

lemma fold_put3_middle:
  "m \<le> b \<Longrightarrow> k < c \<Longrightarrow>
   fold (\<lambda>y. fold (\<lambda>z nf. put3 nf z y k (F y z)) [0..<a]) [0..<m] (tab a b c h)
     = tab a b c (\<lambda>i' j' k'. if j' < m \<and> k' = k then F j' i' else h i' j' k')"
proof (induction m)
  case 0
  then show ?case by simp
next
  case (Suc m)
  then show ?case
    by (auto simp: fold_put3_inner intro!: tab_cong)
qed

lemma fold_put3_outer:
  "l \<le> c \<Longrightarrow>
   fold (\<lambda>x. fold (\<lambda>y. fold (\<lambda>z nf. put3 nf z y x (F x y z)) [0..<a]) [0..<b]) [0..<l] (tab a b c h)
     = tab a b c (\<lambda>i' j' k'. if k' < l then F k' j' i' else h i' j' k')"
proof (induction l)
  case 0
  then show ?case by simp
next
  case (Suc l)
  then show ?case
    by (auto simp: fold_put3_middle intro!: tab_cong)
qed

lemma copyScalarFieldReverse_tab:
  assumes sh: "hasShape a b c field" and a: "0 < a" and b: "0 < b"
  shows "copyScalarFieldReverse field = Some (tab c b a (\<lambda>z y x. field ! x ! y ! z))"
proof -
  from sh a obtain field0 rest where f: "field = field0 # rest"
    by (cases field) (auto simp: hasShape_def)
  from sh f b obtain field00 rest0 where f0: "field0 = field00 # rest0"
    by (cases field0) (auto simp: hasShape_def)
  have la: "length field = a" and lb: "length field0 = b" and lc: "length field00 = c"
    using sh f f0 by (auto simp: hasShape_def)
  have inner: "\<And>x y z nf. x < a \<Longrightarrow> y < b \<Longrightarrow> z < c \<Longrightarrow>
      (do { v \<leftarrow> at3 field x y z; Some (put3 nf z y x v) }) = Some (put3 nf z y x (field ! x ! y ! z))"
    by (simp add: at3_hasShape [OF sh])
  have l1: "\<And>x y nf. x < a \<Longrightarrow> y < b \<Longrightarrow>
      forEach [0..<c] (\<lambda>z nf. do { v \<leftarrow> at3 field x y z; Some (put3 nf z y x v) }) nf
        = Some (fold (\<lambda>z nf. put3 nf z y x (field ! x ! y ! z)) [0..<c] nf)"
    by (rule forEach_Some) (simp add: inner)
  have l2: "\<And>x nf. x < a \<Longrightarrow>
      forEach [0..<b] (\<lambda>y. forEach [0..<c] (\<lambda>z nf. do { v \<leftarrow> at3 field x y z; Some (put3 nf z y x v) })) nf
        = Some (fold (\<lambda>y. fold (\<lambda>z nf. put3 nf z y x (field ! x ! y ! z)) [0..<c]) [0..<b] nf)"
    by (rule forEach_Some) (simp add: l1)
  have l3: "\<And>nf.
      forEach [0..<a] (\<lambda>x. forEach [0..<b] (\<lambda>y. forEach [0..<c] (\<lambda>z nf. do { v \<leftarrow> at3 field x y z; Some (put3 nf z y x v) }))) nf
        = Some (fold (\<lambda>x. fold (\<lambda>y. fold (\<lambda>z nf. put3 nf z y x (field ! x ! y ! z)) [0..<c]) [0..<b]) [0..<a] nf)"
    by (rule forEach_Some) (simp add: l2)
  have new: "map (\<lambda>x. map (\<lambda>y. map (\<lambda>z. 0::real) [0..<a]) [0..<b]) [0..<c] = tab c b a (\<lambda>_ _ _. 0)"
    by (simp add: tab_def)
  have "copyScalarFieldReverse field
      = Some (fold (\<lambda>x. fold (\<lambda>y. fold (\<lambda>z nf. put3 nf z y x (field ! x ! y ! z)) [0..<c]) [0..<b]) [0..<a]
                (tab c b a (\<lambda>_ _ _. 0)))"
    unfolding copyScalarFieldReverse_def f f0
    using la lb lc l3 new by (simp add: f f0)
  also have "\<dots> = Some (tab c b a (\<lambda>z y x. field ! x ! y ! z))"
    by (auto simp: fold_put3_outer intro!: tab_cong)
  finally show ?thesis .
qed

section \<open>The layout adapter and the backend\<close>

lemma list_all_update:
  "list_all P xs \<Longrightarrow> (i < length xs \<Longrightarrow> P v) \<Longrightarrow> list_all P (xs[i := v])"
  by (cases "i < length xs") (auto simp: list_all_length nth_list_update)

lemma copyScalarFieldReverse_unfold:
  "copyScalarFieldReverse field =
     (if field = [] \<or> hd field = [] then None
      else forEach [0..<length field] (\<lambda>x.
             forEach [0..<length (hd field)] (\<lambda>y.
               forEach [0..<length (hd (hd field))] (\<lambda>z nf.
                 do { v \<leftarrow> at3 field x y z; Some (put3 nf z y x v) })))
             (tab (length (hd (hd field))) (length (hd field)) (length field) (\<lambda>_ _ _. 0)))"
proof (cases field)
  case Nil
  then show ?thesis by (simp add: copyScalarFieldReverse_def)
next
  case (Cons field0 rest)
  then show ?thesis
    by (cases field0) (simp_all add: copyScalarFieldReverse_def tab_def)
qed

lemma hasShape_put3:
  assumes "hasShape a b c nf"
  shows "hasShape a b c (put3 nf i j k v)"
proof -
  have plane: "list_all (\<lambda>plane. length plane = b \<and> list_all (\<lambda>row. length row = c) plane) nf"
    and len: "length nf = a"
    using assms by (simp_all add: hasShape_def)
  have "list_all (\<lambda>plane. length plane = b \<and> list_all (\<lambda>row. length row = c) plane)
          (nf[i := (nf ! i)[j := (nf ! i ! j)[k := v]]])"
  proof (rule list_all_update [OF plane])
    assume i: "i < length nf"
    with plane have pi: "length (nf ! i) = b" "list_all (\<lambda>row. length row = c) (nf ! i)"
      by (simp_all add: list_all_length)
    have "list_all (\<lambda>row. length row = c) ((nf ! i)[j := (nf ! i ! j)[k := v]])"
      using pi(2) by (rule list_all_update) (use pi(2) in \<open>simp add: list_all_length\<close>)
    with pi(1) show "length ((nf ! i)[j := (nf ! i ! j)[k := v]]) = b \<and>
        list_all (\<lambda>row. length row = c) ((nf ! i)[j := (nf ! i ! j)[k := v]])"
      by simp
  qed
  with len show ?thesis by (simp add: hasShape_def put3_def)
qed

lemma copyScalarFieldReverse_shape:
  assumes "copyScalarFieldReverse field = Some nf"
  shows "field \<noteq> [] \<and> hd field \<noteq> [] \<and>
         hasShape (length (hd (hd field))) (length (hd field)) (length field) nf"
proof -
  let ?a = "length field" and ?b = "length (hd field)" and ?c = "length (hd (hd field))"
  let ?P = "hasShape ?c ?b ?a"
  have ne: "field \<noteq> []" "hd field \<noteq> []"
    using assms by (auto simp: copyScalarFieldReverse_unfold split: if_splits)
  have body: "\<And>x y z t t'. ?P t \<Longrightarrow>
      (do { v \<leftarrow> at3 field x y z; Some (put3 t z y x v) }) = Some t' \<Longrightarrow> ?P t'"
    by (auto simp: hasShape_put3 split: bind_splits)
  have l1: "\<And>x y t t'. ?P t \<Longrightarrow>
      forEach [0..<?c] (\<lambda>z nf. do { v \<leftarrow> at3 field x y z; Some (put3 nf z y x v) }) t = Some t' \<Longrightarrow> ?P t'"
    by (erule forEach_invariant [rotated]) (auto intro: body)
  have l2: "\<And>x t t'. ?P t \<Longrightarrow>
      forEach [0..<?b] (\<lambda>y. forEach [0..<?c] (\<lambda>z nf. do { v \<leftarrow> at3 field x y z; Some (put3 nf z y x v) })) t = Some t'
      \<Longrightarrow> ?P t'"
    by (erule forEach_invariant [rotated]) (auto intro: l1)
  have l3: "\<And>t t'. ?P t \<Longrightarrow>
      forEach [0..<?a] (\<lambda>x. forEach [0..<?b] (\<lambda>y. forEach [0..<?c] (\<lambda>z nf. do { v \<leftarrow> at3 field x y z; Some (put3 nf z y x v) }))) t = Some t'
      \<Longrightarrow> ?P t'"
    by (erule forEach_invariant [rotated]) (auto intro: l2)
  have run: "forEach [0..<?a] (\<lambda>x. forEach [0..<?b] (\<lambda>y. forEach [0..<?c] (\<lambda>z nf.
        do { v \<leftarrow> at3 field x y z; Some (put3 nf z y x v) }))) (tab ?c ?b ?a (\<lambda>_ _ _. 0)) = Some nf"
    using assms ne by (simp add: copyScalarFieldReverse_unfold)
  have "?P nf"
    using hasShape_tab run by (rule l3)
  with ne show ?thesis by simp
qed

lemma those_map_Some:
  "(\<And>x. x \<in> set xs \<Longrightarrow> f x = Some (g x)) \<Longrightarrow> those (map f xs) = Some (map g xs)"
  by (induction xs) auto

lemma those_Some_map: "those xs = Some ys \<Longrightarrow> xs = map Some ys"
  by (induction xs arbitrary: ys) (auto split: option.splits)

lemma createKernel_Some:
  assumes "\<And>x y z. x < nat ox \<Longrightarrow> y < nat oy \<Longrightarrow> z < nat oz \<Longrightarrow> cell x y z = Some (g x y z)"
  shows "createKernel (ox, oy, oz) cell = Some (tab (nat oz) (nat oy) (nat ox) (\<lambda>z y x. g x y z))"
proof -
  have r: "\<And>y z. y < nat oy \<Longrightarrow> z < nat oz \<Longrightarrow>
      those (map (\<lambda>x. cell x y z) [0..<nat ox]) = Some (map (\<lambda>x. g x y z) [0..<nat ox])"
    by (rule those_map_Some) (simp add: assms)
  have p: "\<And>z. z < nat oz \<Longrightarrow>
      those (map (\<lambda>y. those (map (\<lambda>x. cell x y z) [0..<nat ox])) [0..<nat oy])
        = Some (map (\<lambda>y. map (\<lambda>x. g x y z) [0..<nat ox]) [0..<nat oy])"
    by (rule those_map_Some) (simp add: r)
  have "those (map (\<lambda>z. those (map (\<lambda>y. those (map (\<lambda>x. cell x y z) [0..<nat ox])) [0..<nat oy])) [0..<nat oz])
        = Some (map (\<lambda>z. map (\<lambda>y. map (\<lambda>x. g x y z) [0..<nat ox]) [0..<nat oy]) [0..<nat oz])"
    by (rule those_map_Some) (simp add: p)
  then show ?thesis
    by (simp add: materialize_def tab_def comp_def)
qed

lemma createKernel_shape:
  assumes "createKernel (ox, oy, oz) cell = Some k"
  shows "hasShape (nat oz) (nat oy) (nat ox) k"
proof -
  let ?planes = "map (\<lambda>z. those (map (\<lambda>y. those (map (\<lambda>x. cell x y z) [0..<nat ox])) [0..<nat oy])) [0..<nat oz]"
  from assms have "those ?planes = Some k"
    by (simp add: materialize_def comp_def)
  then have k: "?planes = map Some k" by (rule those_Some_map)
  then have len: "length k = nat oz"
    by (metis length_map length_upt minus_nat.diff_0)
  have plane: "\<And>z. z < nat oz \<Longrightarrow>
      map (\<lambda>y. those (map (\<lambda>x. cell x y z) [0..<nat ox])) [0..<nat oy] = map Some (k ! z)"
  proof -
    fix z assume z: "z < nat oz"
    from k have "?planes ! z = map Some k ! z" by simp
    with z len have "those (map (\<lambda>y. those (map (\<lambda>x. cell x y z) [0..<nat ox])) [0..<nat oy]) = Some (k ! z)"
      by simp
    then show "map (\<lambda>y. those (map (\<lambda>x. cell x y z) [0..<nat ox])) [0..<nat oy] = map Some (k ! z)"
      by (rule those_Some_map)
  qed
  have plen: "\<And>z. z < nat oz \<Longrightarrow> length (k ! z) = nat oy"
    using plane by (metis length_map length_upt minus_nat.diff_0)
  have row: "\<And>z y. z < nat oz \<Longrightarrow> y < nat oy \<Longrightarrow> length (k ! z ! y) = nat ox"
  proof -
    fix z y assume z: "z < nat oz" and y: "y < nat oy"
    from plane [OF z]
    have "map (\<lambda>y. those (map (\<lambda>x. cell x y z) [0..<nat ox])) [0..<nat oy] ! y = map Some (k ! z) ! y"
      by simp
    with y plen [OF z] have "those (map (\<lambda>x. cell x y z) [0..<nat ox]) = Some (k ! z ! y)"
      by simp
    then have "map (\<lambda>x. cell x y z) [0..<nat ox] = map Some (k ! z ! y)"
      by (rule those_Some_map)
    then show "length (k ! z ! y) = nat ox"
      by (metis length_map length_upt minus_nat.diff_0)
  qed
  show ?thesis
    using len plen row by (simp add: hasShape_def list_all_length)
qed

lemma kernel_copy_Some:
  assumes cells: "\<And>x y z. x < nat ox \<Longrightarrow> y < nat oy \<Longrightarrow> z < nat oz \<Longrightarrow> cell x y z = Some (g x y z)"
    and oy: "0 < oy" and oz: "0 < oz"
  shows "createKernel (ox, oy, oz) cell \<bind> copyScalarFieldReverse
           = Some (tab (nat ox) (nat oy) (nat oz) g)"
proof -
  let ?k = "tab (nat oz) (nat oy) (nat ox) (\<lambda>z y x. g x y z)"
  have "createKernel (ox, oy, oz) cell = Some ?k"
    using cells by (rule createKernel_Some)
  moreover have "copyScalarFieldReverse ?k = Some (tab (nat ox) (nat oy) (nat oz) (\<lambda>x y z. ?k ! z ! y ! x))"
    using oy oz by (intro copyScalarFieldReverse_tab hasShape_tab) auto
  moreover have "tab (nat ox) (nat oy) (nat oz) (\<lambda>x y z. ?k ! z ! y ! x) = tab (nat ox) (nat oy) (nat oz) g"
    by (rule tab_cong) (simp add: tab_nth)
  ultimately show ?thesis by simp
qed

lemma kernel_copy_shape:
  assumes "createKernel (ox, oy, oz) cell \<bind> copyScalarFieldReverse = Some f"
  shows "hasShape (nat ox) (nat oy) (nat oz) f"
proof -
  from assms obtain k where k: "createKernel (ox, oy, oz) cell = Some k"
    and c: "copyScalarFieldReverse k = Some f"
    by (auto split: bind_splits)
  from createKernel_shape [OF k] have sh: "hasShape (nat oz) (nat oy) (nat ox) k" .
  from copyScalarFieldReverse_shape [OF c]
  have ne: "k \<noteq> []" "hd k \<noteq> []"
    and f: "hasShape (length (hd (hd k))) (length (hd k)) (length k) f" by auto
  from sh ne have "length k = nat oz" "length (hd k) = nat oy" "length (hd (hd k)) = nat ox"
    by (auto simp: hasShape_def neq_Nil_conv)
  with f show ?thesis by simp
qed

section \<open>The kernels and the half-steps in closed form\<close>

declare updateMagneticX.simps [simp del] updateMagneticY.simps [simp del]
  updateMagneticZ.simps [simp del] updateElectricX.simps [simp del]
  updateElectricY.simps [simp del] updateElectricZ.simps [simp del]
  createKernel.simps [simp del] makeField3D.simps [simp del]

lemma updateMagneticX_copy:
  assumes "hasShape (nat ox) (nat oy) (nat oz) fieldY"
    and "hasShape (nat ox) (nat oy) (nat oz) fieldZ"
    and "hasShape (nat ox) (nat oy) (nat oz) magFieldX"
    and "0 < oy" and "0 < oz"
  shows "updateMagneticX (ox, oy, oz) cs fieldY fieldZ magFieldX dt \<bind> copyScalarFieldReverse
    = Some (tab (nat ox) (nat oy) (nat oz) (\<lambda>x y z.
        magFieldX ! x ! y ! z
          - dt * (((if y + 1 < nat oy then fieldZ ! x ! (y + 1) ! z else 0) - fieldZ ! x ! y ! z)
                - ((if z + 1 < nat oz then fieldY ! x ! y ! (z + 1) else 0) - fieldY ! x ! y ! z)) / cs))"
  unfolding updateMagneticX.simps
  by (rule kernel_copy_Some) (use assms in \<open>auto simp: at3_hasShape\<close>)

lemma updateElectricX_copy:
  assumes "hasShape (nat ox) (nat oy) (nat oz) fieldY"
    and "hasShape (nat ox) (nat oy) (nat oz) fieldZ"
    and "hasShape (nat ox) (nat oy) (nat oz) elFieldX"
    and "0 < oy" and "0 < oz"
  shows "updateElectricX (ox, oy, oz) cs fieldY fieldZ elFieldX dt \<bind> copyScalarFieldReverse
    = Some (tab (nat ox) (nat oy) (nat oz) (\<lambda>x y z.
        elFieldX ! x ! y ! z
          + dt * ((fieldZ ! x ! y ! z - (if 0 < y then fieldZ ! x ! (y - 1) ! z else 0))
                - (fieldY ! x ! y ! z - (if 0 < z then fieldY ! x ! y ! (z - 1) else 0))) / cs))"
  unfolding updateElectricX.simps
  by (rule kernel_copy_Some) (use assms in \<open>auto simp: at3_hasShape\<close>)

lemma updateMagneticY_copy:
  assumes "hasShape (nat ox) (nat oy) (nat oz) fieldX"
    and "hasShape (nat ox) (nat oy) (nat oz) fieldZ"
    and "hasShape (nat ox) (nat oy) (nat oz) magFieldY"
    and "0 < oy" and "0 < oz"
  shows "updateMagneticY (ox, oy, oz) cs fieldX fieldZ magFieldY dt \<bind> copyScalarFieldReverse
    = Some (tab (nat ox) (nat oy) (nat oz) (\<lambda>x y z.
        magFieldY ! x ! y ! z
          - dt * (((if z + 1 < nat oz then fieldX ! x ! y ! (z + 1) else 0) - fieldX ! x ! y ! z)
                - ((if x + 1 < nat ox then fieldZ ! (x + 1) ! y ! z else 0) - fieldZ ! x ! y ! z)) / cs))"
  unfolding updateMagneticY.simps
  by (rule kernel_copy_Some) (use assms in \<open>auto simp: at3_hasShape\<close>)

lemma updateMagneticZ_copy:
  assumes "hasShape (nat ox) (nat oy) (nat oz) fieldX"
    and "hasShape (nat ox) (nat oy) (nat oz) fieldY"
    and "hasShape (nat ox) (nat oy) (nat oz) magFieldZ"
    and "0 < oy" and "0 < oz"
  shows "updateMagneticZ (ox, oy, oz) cs fieldX fieldY magFieldZ dt \<bind> copyScalarFieldReverse
    = Some (tab (nat ox) (nat oy) (nat oz) (\<lambda>x y z.
        magFieldZ ! x ! y ! z
          - dt * (((if x + 1 < nat ox then fieldY ! (x + 1) ! y ! z else 0) - fieldY ! x ! y ! z)
                - ((if y + 1 < nat oy then fieldX ! x ! (y + 1) ! z else 0) - fieldX ! x ! y ! z)) / cs))"
  unfolding updateMagneticZ.simps
  by (rule kernel_copy_Some) (use assms in \<open>auto simp: at3_hasShape\<close>)

lemma updateElectricY_copy:
  assumes "hasShape (nat ox) (nat oy) (nat oz) fieldX"
    and "hasShape (nat ox) (nat oy) (nat oz) fieldZ"
    and "hasShape (nat ox) (nat oy) (nat oz) elFieldY"
    and "0 < oy" and "0 < oz"
  shows "updateElectricY (ox, oy, oz) cs fieldX fieldZ elFieldY dt \<bind> copyScalarFieldReverse
    = Some (tab (nat ox) (nat oy) (nat oz) (\<lambda>x y z.
        elFieldY ! x ! y ! z
          + dt * ((fieldX ! x ! y ! z - (if 0 < z then fieldX ! x ! y ! (z - 1) else 0))
                - (fieldZ ! x ! y ! z - (if 0 < x then fieldZ ! (x - 1) ! y ! z else 0))) / cs))"
  unfolding updateElectricY.simps
  by (rule kernel_copy_Some) (use assms in \<open>auto simp: at3_hasShape\<close>)

lemma updateElectricZ_copy:
  assumes "hasShape (nat ox) (nat oy) (nat oz) fieldX"
    and "hasShape (nat ox) (nat oy) (nat oz) fieldY"
    and "hasShape (nat ox) (nat oy) (nat oz) elFieldZ"
    and "0 < oy" and "0 < oz"
  shows "updateElectricZ (ox, oy, oz) cs fieldX fieldY elFieldZ dt \<bind> copyScalarFieldReverse
    = Some (tab (nat ox) (nat oy) (nat oz) (\<lambda>x y z.
        elFieldZ ! x ! y ! z
          + dt * ((fieldY ! x ! y ! z - (if 0 < x then fieldY ! (x - 1) ! y ! z else 0))
                - (fieldX ! x ! y ! z - (if 0 < y then fieldX ! x ! (y - 1) ! z else 0))) / cs))"
  unfolding updateElectricZ.simps
  by (rule kernel_copy_Some) (use assms in \<open>auto simp: at3_hasShape\<close>)

lemma stepMagnetic_result:
  assumes sh: "gridShaped s" and out: "kernelOutput s = (nx, ny, nz)"
    and ny: "0 < ny" and nz: "0 < nz"
  shows "stepMagnetic dt s =
    (Returned, s\<lparr>data := (data s)\<lparr>
       magneticFieldX := tab (nat nx) (nat ny) (nat nz) (\<lambda>x y z.
         magneticFieldX (data s) ! x ! y ! z
           - dt * (((if y + 1 < nat ny then electricFieldZ (data s) ! x ! (y + 1) ! z else 0)
                      - electricFieldZ (data s) ! x ! y ! z)
                 - ((if z + 1 < nat nz then electricFieldY (data s) ! x ! y ! (z + 1) else 0)
                      - electricFieldY (data s) ! x ! y ! z)) / cellSize s),
       magneticFieldY := tab (nat nx) (nat ny) (nat nz) (\<lambda>x y z.
         magneticFieldY (data s) ! x ! y ! z
           - dt * (((if z + 1 < nat nz then electricFieldX (data s) ! x ! y ! (z + 1) else 0)
                      - electricFieldX (data s) ! x ! y ! z)
                 - ((if x + 1 < nat nx then electricFieldZ (data s) ! (x + 1) ! y ! z else 0)
                      - electricFieldZ (data s) ! x ! y ! z)) / cellSize s),
       magneticFieldZ := tab (nat nx) (nat ny) (nat nz) (\<lambda>x y z.
         magneticFieldZ (data s) ! x ! y ! z
           - dt * (((if x + 1 < nat nx then electricFieldY (data s) ! (x + 1) ! y ! z else 0)
                      - electricFieldY (data s) ! x ! y ! z)
                 - ((if y + 1 < nat ny then electricFieldX (data s) ! x ! (y + 1) ! z else 0)
                      - electricFieldX (data s) ! x ! y ! z)) / cellSize s),
       time := time (data s) + dt / 2\<rparr>\<rparr>)"
proof -
  from sh out have shapes:
    "hasShape (nat nx) (nat ny) (nat nz) (electricFieldX (data s))"
    "hasShape (nat nx) (nat ny) (nat nz) (electricFieldY (data s))"
    "hasShape (nat nx) (nat ny) (nat nz) (electricFieldZ (data s))"
    "hasShape (nat nx) (nat ny) (nat nz) (magneticFieldX (data s))"
    "hasShape (nat nx) (nat ny) (nat nz) (magneticFieldY (data s))"
    "hasShape (nat nx) (nat ny) (nat nz) (magneticFieldZ (data s))"
    by (simp_all add: gridShaped_def)
  show ?thesis
    unfolding stepMagnetic_def
    by (simp add: out Let_def updateMagneticX_copy [OF shapes(2) shapes(3) shapes(4) ny nz]
        updateMagneticY_copy [OF shapes(1) shapes(3) shapes(5) ny nz]
        updateMagneticZ_copy [OF shapes(1) shapes(2) shapes(6) ny nz])
qed

lemma stepElectric_result:
  assumes sh: "gridShaped s" and out: "kernelOutput s = (nx, ny, nz)"
    and ny: "0 < ny" and nz: "0 < nz"
  shows "stepElectric dt s =
    (Returned, s\<lparr>data := (data s)\<lparr>
       electricFieldX := tab (nat nx) (nat ny) (nat nz) (\<lambda>x y z.
         electricFieldX (data s) ! x ! y ! z
           + dt * ((magneticFieldZ (data s) ! x ! y ! z
                      - (if 0 < y then magneticFieldZ (data s) ! x ! (y - 1) ! z else 0))
                 - (magneticFieldY (data s) ! x ! y ! z
                      - (if 0 < z then magneticFieldY (data s) ! x ! y ! (z - 1) else 0))) / cellSize s),
       electricFieldY := tab (nat nx) (nat ny) (nat nz) (\<lambda>x y z.
         electricFieldY (data s) ! x ! y ! z
           + dt * ((magneticFieldX (data s) ! x ! y ! z
                      - (if 0 < z then magneticFieldX (data s) ! x ! y ! (z - 1) else 0))
                 - (magneticFieldZ (data s) ! x ! y ! z
                      - (if 0 < x then magneticFieldZ (data s) ! (x - 1) ! y ! z else 0))) / cellSize s),
       electricFieldZ := tab (nat nx) (nat ny) (nat nz) (\<lambda>x y z.
         electricFieldZ (data s) ! x ! y ! z
           + dt * ((magneticFieldY (data s) ! x ! y ! z
                      - (if 0 < x then magneticFieldY (data s) ! (x - 1) ! y ! z else 0))
                 - (magneticFieldX (data s) ! x ! y ! z
                      - (if 0 < y then magneticFieldX (data s) ! x ! (y - 1) ! z else 0))) / cellSize s),
       time := time (data s) + dt / 2\<rparr>\<rparr>)"
proof -
  from sh out have shapes:
    "hasShape (nat nx) (nat ny) (nat nz) (electricFieldX (data s))"
    "hasShape (nat nx) (nat ny) (nat nz) (electricFieldY (data s))"
    "hasShape (nat nx) (nat ny) (nat nz) (electricFieldZ (data s))"
    "hasShape (nat nx) (nat ny) (nat nz) (magneticFieldX (data s))"
    "hasShape (nat nx) (nat ny) (nat nz) (magneticFieldY (data s))"
    "hasShape (nat nx) (nat ny) (nat nz) (magneticFieldZ (data s))"
    by (simp_all add: gridShaped_def)
  show ?thesis
    unfolding stepElectric_def
    by (simp add: out Let_def updateElectricX_copy [OF shapes(5) shapes(6) shapes(1) ny nz]
        updateElectricY_copy [OF shapes(4) shapes(6) shapes(2) ny nz]
        updateElectricZ_copy [OF shapes(4) shapes(5) shapes(3) ny nz])
qed

section \<open>Construction\<close>

lemma zeroFilled_tab: "zeroFilled (tab a b c (\<lambda>_ _ _. 0))"
  by (simp add: zeroFilled_def tab_def list_all_iff)

lemma hasGridShape_makeField3D: "hasGridShape gs (makeField3D gs g)"
  by (cases gs) (simp add: makeField3D_tab hasShape_tab)

lemma newFDTDSimulator_gridShaped:
  "newFDTDSimulator gs cs = Some s \<Longrightarrow> gridShaped s \<and> kernelOutput s = gs \<and> cellSize s = cs"
  by (auto simp: newFDTDSimulator_def gridShaped_def hasGridShape_makeField3D)

text \<open>
  Claim C1, as amended. The constructor validates nothing and never fails: for every
  \<open>gridSize\<close> (three integers, positive or not) and every \<open>cellSize\<close> (positive or not) it
  returns an instance that records both arguments unchanged, has \<open>time = 0\<close> and has all
  eight fields of the grid's shape and zero-filled. For three positive dimensions and a
  positive cell size this is what the claim says; for the other inputs the claim's
  configuration error does not exist in the code.
\<close>

theorem newFDTDSimulator_never_fails:
  "\<exists>s. newFDTDSimulator gridSize cs = Some s \<and> kernelOutput s = gridSize \<and> cellSize s = cs \<and>
      time (data s) = 0 \<and> gridShaped s \<and>
      zeroFilled (electricFieldX (data s)) \<and> zeroFilled (electricFieldY (data s)) \<and>
      zeroFilled (electricFieldZ (data s)) \<and> zeroFilled (magneticFieldX (data s)) \<and>
      zeroFilled (magneticFieldY (data s)) \<and> zeroFilled (magneticFieldZ (data s)) \<and>
      zeroFilled (permittivity (data s)) \<and> zeroFilled (permeability (data s))"
proof -
  obtain nx ny nz where gs: "gridSize = (nx, ny, nz)" by (cases gridSize)
  have z: "zeroFilled (makeField3D gridSize (\<lambda>_. 0))"
    by (simp add: gs makeField3D_tab zeroFilled_tab)
  obtain s where s: "newFDTDSimulator gridSize cs = Some s"
    by (simp add: newFDTDSimulator_def)
  from newFDTDSimulator_gridShaped [OF s] s z show ?thesis
    by (auto simp: newFDTDSimulator_def)
qed

text \<open>The statement at the valid input \<open>gridSize = (2, 3, 4)\<close>, \<open>cellSize = 1\<close>.\<close>

theorem newFDTDSimulator_never_fails_witness:
  "\<exists>s. newFDTDSimulator (2, 3, 4) 1 = Some s \<and> kernelOutput s = (2, 3, 4) \<and> cellSize s = 1 \<and>
      time (data s) = 0 \<and> gridShaped s \<and>
      zeroFilled (electricFieldX (data s)) \<and> zeroFilled (electricFieldY (data s)) \<and>
      zeroFilled (electricFieldZ (data s)) \<and> zeroFilled (magneticFieldX (data s)) \<and>
      zeroFilled (magneticFieldY (data s)) \<and> zeroFilled (magneticFieldZ (data s)) \<and>
      zeroFilled (permittivity (data s)) \<and> zeroFilled (permeability (data s))"
  by (rule newFDTDSimulator_never_fails)

text \<open>
  Claim C1 as stated fails: with the dimensions \<open>(0, -1, 2)\<close>, none of them a valid
  extent, and the cell size \<open>-1\<close>, construction returns an instance whose fields are all
  the empty array and which keeps the invalid settings.
\<close>

theorem newFDTDSimulator_unvalidated_counterexample:
  "newFDTDSimulator (0, - 1, 2) (- 1) =
     Some \<lparr> data = \<lparr> time = 0, electricFieldX = [], electricFieldY = [], electricFieldZ = [],
                     magneticFieldX = [], magneticFieldY = [], magneticFieldZ = [],
                     permittivity = [], permeability = [] \<rparr>,
            kernelOutput = (0, - 1, 2), cellSize = - 1 \<rparr>"
  by (simp add: newFDTDSimulator_def makeField3D.simps)

section \<open>The layout adapter reindexes\<close>

text \<open>
  Claim C8. For every input array of shape \<open>[a][b][c]\<close>, \<open>copyScalarFieldReverse\<close> returns a
  new array of shape \<open>[c][b][a]\<close> whose entry at \<open>[z][y][x]\<close> is the input's entry at
  \<open>[x][y][z]\<close>: a reindexing copy that alters no value. An array has a shape \<open>[a][b][c]\<close> of
  its own when it has a first plane and a first row (\<open>0 < a\<close>, \<open>0 < b\<close>), as every result of
  a kernel on a grid of positive dimensions has; the adapter is called on nothing else.
\<close>

theorem copyScalarFieldReverse_reindexes:
  assumes "hasShape a b c field" and "0 < a" and "0 < b"
  shows "\<exists>newField. copyScalarFieldReverse field = Some newField \<and> hasShape c b a newField \<and>
           (\<forall>x<a. \<forall>y<b. \<forall>z<c. newField ! z ! y ! x = field ! x ! y ! z)"
  using assms by (simp add: copyScalarFieldReverse_tab hasShape_tab tab_nth)

text \<open>
  The statement at an array of shape \<open>[2][1][2]\<close>: the result has shape \<open>[2][1][2]\<close> again,
  with the entries 2 and 3 exchanged.
\<close>

theorem copyScalarFieldReverse_reindexes_witness:
  "hasShape 2 1 2 [[[1, 2]], [[3, 4 :: real]]] \<and>
   copyScalarFieldReverse [[[1, 2]], [[3, 4]]] = Some [[[1, 3]], [[2, 4]]]"
proof -
  have sh: "hasShape 2 1 2 [[[1, 2]], [[3, 4 :: real]]]"
    by (simp add: hasShape_def)
  from copyScalarFieldReverse_reindexes [OF sh]
  obtain nf where nf: "copyScalarFieldReverse [[[1, 2]], [[3, 4]]] = Some nf"
    and shape: "hasShape 2 1 2 nf"
    and entries: "\<forall>x<2. \<forall>y<1. \<forall>z<2. nf ! z ! y ! x = [[[1, 2]], [[3, 4 :: real]]] ! x ! y ! z"
    by auto
  have two: "[0..<2] = [0, 1]" and one: "[0..<1] = [0]"
    by (simp_all add: upt_rec)
  from hasShape_eq_tab [OF shape]
  have "nf = [[[nf ! 0 ! 0 ! 0, nf ! 0 ! 0 ! 1]], [[nf ! 1 ! 0 ! 0, nf ! 1 ! 0 ! 1]]]"
    by (simp add: tab_def two one)
  moreover from entries have "nf ! 0 ! 0 ! 0 = 1" and "nf ! 0 ! 0 ! 1 = 3"
    and "nf ! 1 ! 0 ! 0 = 2" and "nf ! 1 ! 0 ! 1 = 4"
    by simp_all
  ultimately have "nf = [[[1, 3]], [[2, 4]]]" by simp
  with nf sh show ?thesis by simp
qed

section \<open>What a half-step leaves alone\<close>

text \<open>
  Claim C9. For every state and every \<open>dt\<close>, whether the call returns or throws,
  \<open>stepElectric(dt)\<close> leaves the three magnetic fields, the permittivity and the
  permeability as they were, and \<open>stepMagnetic(dt)\<close> leaves the three electric fields, the
  permittivity and the permeability as they were.
\<close>

theorem half_steps_frame:
  "magneticFieldX (data (snd (stepElectric dt s))) = magneticFieldX (data s) \<and>
   magneticFieldY (data (snd (stepElectric dt s))) = magneticFieldY (data s) \<and>
   magneticFieldZ (data (snd (stepElectric dt s))) = magneticFieldZ (data s) \<and>
   permittivity (data (snd (stepElectric dt s))) = permittivity (data s) \<and>
   permeability (data (snd (stepElectric dt s))) = permeability (data s) \<and>
   electricFieldX (data (snd (stepMagnetic dt s))) = electricFieldX (data s) \<and>
   electricFieldY (data (snd (stepMagnetic dt s))) = electricFieldY (data s) \<and>
   electricFieldZ (data (snd (stepMagnetic dt s))) = electricFieldZ (data s) \<and>
   permittivity (data (snd (stepMagnetic dt s))) = permittivity (data s) \<and>
   permeability (data (snd (stepMagnetic dt s))) = permeability (data s)"
  by (simp add: stepElectric_def stepMagnetic_def Let_def split: option.split)

section \<open>Shapes are invariant\<close>

lemma updateMagneticX_shape:
  "updateMagneticX gs cs fieldY fieldZ magFieldX dt \<bind> copyScalarFieldReverse = Some f \<Longrightarrow> hasGridShape gs f"
  by (cases gs) (auto simp: updateMagneticX.simps dest: kernel_copy_shape)

lemma updateMagneticY_shape:
  "updateMagneticY gs cs fieldX fieldZ magFieldY dt \<bind> copyScalarFieldReverse = Some f \<Longrightarrow> hasGridShape gs f"
  by (cases gs) (auto simp: updateMagneticY.simps dest: kernel_copy_shape)

lemma updateMagneticZ_shape:
  "updateMagneticZ gs cs fieldX fieldY magFieldZ dt \<bind> copyScalarFieldReverse = Some f \<Longrightarrow> hasGridShape gs f"
  by (cases gs) (auto simp: updateMagneticZ.simps dest: kernel_copy_shape)

lemma updateElectricX_shape:
  "updateElectricX gs cs fieldY fieldZ elFieldX dt \<bind> copyScalarFieldReverse = Some f \<Longrightarrow> hasGridShape gs f"
  by (cases gs) (auto simp: updateElectricX.simps dest: kernel_copy_shape)

lemma updateElectricY_shape:
  "updateElectricY gs cs fieldX fieldZ elFieldY dt \<bind> copyScalarFieldReverse = Some f \<Longrightarrow> hasGridShape gs f"
  by (cases gs) (auto simp: updateElectricY.simps dest: kernel_copy_shape)

lemma updateElectricZ_shape:
  "updateElectricZ gs cs fieldX fieldY elFieldZ dt \<bind> copyScalarFieldReverse = Some f \<Longrightarrow> hasGridShape gs f"
  by (cases gs) (auto simp: updateElectricZ.simps dest: kernel_copy_shape)

lemma stepElectric_settings:
  "kernelOutput (snd (stepElectric dt s)) = kernelOutput s \<and> cellSize (snd (stepElectric dt s)) = cellSize s"
  by (simp add: stepElectric_def Let_def split: option.split)

lemma stepMagnetic_settings:
  "kernelOutput (snd (stepMagnetic dt s)) = kernelOutput s \<and> cellSize (snd (stepMagnetic dt s)) = cellSize s"
  by (simp add: stepMagnetic_def Let_def split: option.split)

lemma stepElectric_gridShaped: "gridShaped s \<Longrightarrow> gridShaped (snd (stepElectric dt s))"
  unfolding stepElectric_def gridShaped_def
  by (auto simp: Let_def split: option.split
      dest: updateElectricX_shape updateElectricY_shape updateElectricZ_shape)

lemma stepMagnetic_gridShaped: "gridShaped s \<Longrightarrow> gridShaped (snd (stepMagnetic dt s))"
  unfolding stepMagnetic_def gridShaped_def
  by (auto simp: Let_def split: option.split
      dest: updateMagneticX_shape updateMagneticY_shape updateMagneticZ_shape)

lemma perform_invariant:
  "gridShaped s \<Longrightarrow> gridShaped (perform c s) \<and> kernelOutput (perform c s) = kernelOutput s
     \<and> cellSize (perform c s) = cellSize s"
  by (cases c) (simp_all add: stepElectric_gridShaped stepMagnetic_gridShaped
      stepElectric_settings stepMagnetic_settings)

lemma performAll_invariant:
  "gridShaped s \<Longrightarrow> gridShaped (performAll calls s) \<and> kernelOutput (performAll calls s) = kernelOutput s
     \<and> cellSize (performAll calls s) = cellSize s"
proof (induction calls arbitrary: s)
  case Nil
  then show ?case by simp
next
  case (Cons c calls)
  from perform_invariant [OF Cons.prems, of c] Cons.IH [of "perform c s"]
  show ?case by simp
qed

text \<open>
  Claim C7. For every simulator the constructor returns and every finite sequence of
  \<open>stepElectric\<close> and \<open>stepMagnetic\<close> calls (each with its own \<open>dt\<close>, returning or throwing),
  each of the eight stored fields has exactly the shape \<open>(Nx, Ny, Nz)\<close> of the constructed
  grid.
\<close>

theorem shape_invariance:
  assumes "newFDTDSimulator gridSize cs = Some s0"
  shows "hasGridShape gridSize (electricFieldX (data (performAll calls s0))) \<and>
         hasGridShape gridSize (electricFieldY (data (performAll calls s0))) \<and>
         hasGridShape gridSize (electricFieldZ (data (performAll calls s0))) \<and>
         hasGridShape gridSize (magneticFieldX (data (performAll calls s0))) \<and>
         hasGridShape gridSize (magneticFieldY (data (performAll calls s0))) \<and>
         hasGridShape gridSize (magneticFieldZ (data (performAll calls s0))) \<and>
         hasGridShape gridSize (permittivity (data (performAll calls s0))) \<and>
         hasGridShape gridSize (permeability (data (performAll calls s0)))"
proof -
  from newFDTDSimulator_gridShaped [OF assms]
  have "gridShaped s0" and "kernelOutput s0 = gridSize" by simp_all
  with performAll_invariant [of s0 calls]
  have sh: "gridShaped (performAll calls s0)" and ko: "kernelOutput (performAll calls s0) = gridSize"
    by simp_all
  from sh show ?thesis
    unfolding gridShaped_def ko by simp
qed

text \<open>The statement on the grid \<open>(2, 3, 4)\<close> after an electric and a magnetic half-step.\<close>

theorem shape_invariance_witness:
  "newFDTDSimulator (2, 3, 4) 1 = Some (the (newFDTDSimulator (2, 3, 4) 1)) \<and>
   hasGridShape (2, 3, 4) (electricFieldX (data (performAll [StepElectric (1 / 10), StepMagnetic (1 / 10)]
     (the (newFDTDSimulator (2, 3, 4) 1))))) \<and>
   hasGridShape (2, 3, 4) (magneticFieldZ (data (performAll [StepElectric (1 / 10), StepMagnetic (1 / 10)]
     (the (newFDTDSimulator (2, 3, 4) 1))))) \<and>
   hasGridShape (2, 3, 4) (permeability (data (performAll [StepElectric (1 / 10), StepMagnetic (1 / 10)]
     (the (newFDTDSimulator (2, 3, 4) 1)))))"
proof -
  have new: "newFDTDSimulator (2, 3, 4) 1 = Some (the (newFDTDSimulator (2, 3, 4) 1))"
    by (simp add: newFDTDSimulator_def)
  from shape_invariance [OF new, of "[StepElectric (1 / 10), StepMagnetic (1 / 10)]"] new
  show ?thesis by blast
qed

section \<open>The material fields are inert\<close>

lemma stepElectric_material:
  "permittivity (data (snd (stepElectric dt s))) = permittivity (data s) \<and>
   permeability (data (snd (stepElectric dt s))) = permeability (data s)"
  by (simp add: stepElectric_def Let_def split: option.split)

lemma stepMagnetic_material:
  "permittivity (data (snd (stepMagnetic dt s))) = permittivity (data s) \<and>
   permeability (data (snd (stepMagnetic dt s))) = permeability (data s)"
  by (simp add: stepMagnetic_def Let_def split: option.split)

lemma performAll_material:
  "permittivity (data (performAll calls s)) = permittivity (data s) \<and>
   permeability (data (performAll calls s)) = permeability (data s)"
proof (induction calls arbitrary: s)
  case Nil
  then show ?case by simp
next
  case (Cons c calls)
  have "permittivity (data (perform c s)) = permittivity (data s) \<and>
        permeability (data (perform c s)) = permeability (data s)"
    by (cases c) (simp_all add: stepElectric_material stepMagnetic_material)
  with Cons.IH [of "perform c s"] show ?case by simp
qed

lemma stepElectric_ignores_material:
  "stepElectric dt (s\<lparr>data := (data s)\<lparr>permittivity := p, permeability := q\<rparr>\<rparr>) =
     (fst (stepElectric dt s),
      (snd (stepElectric dt s))\<lparr>data := (data (snd (stepElectric dt s)))\<lparr>permittivity := p, permeability := q\<rparr>\<rparr>)"
  by (simp add: stepElectric_def Let_def split: option.split)

lemma stepMagnetic_ignores_material:
  "stepMagnetic dt (s\<lparr>data := (data s)\<lparr>permittivity := p, permeability := q\<rparr>\<rparr>) =
     (fst (stepMagnetic dt s),
      (snd (stepMagnetic dt s))\<lparr>data := (data (snd (stepMagnetic dt s)))\<lparr>permittivity := p, permeability := q\<rparr>\<rparr>)"
  by (simp add: stepMagnetic_def Let_def split: option.split)

text \<open>
  Claim C10. The constructor initializes \<open>permittivity\<close> and \<open>permeability\<close> to the all-zero
  field of the grid (every entry 0, not 1). Neither half-step reads or writes them: a
  half-step started with other material fields \<open>p\<close> and \<open>q\<close> has the same outcome and leaves
  the same state, but for \<open>p\<close> and \<open>q\<close> themselves, still in place. Hence after every finite
  sequence of calls both are still the all-zero field.
\<close>

theorem material_fields_inert:
  assumes "newFDTDSimulator gridSize cs = Some s0"
  shows "permittivity (data (performAll calls s0)) = makeField3D gridSize (\<lambda>_. 0) \<and>
         permeability (data (performAll calls s0)) = makeField3D gridSize (\<lambda>_. 0) \<and>
         hasGridShape gridSize (makeField3D gridSize (\<lambda>_. 0 :: real)) \<and>
         zeroFilled (makeField3D gridSize (\<lambda>_. 0)) \<and>
         (\<forall>s dt p q.
            stepElectric dt (s\<lparr>data := (data s)\<lparr>permittivity := p, permeability := q\<rparr>\<rparr>) =
              (fst (stepElectric dt s),
               (snd (stepElectric dt s))\<lparr>data := (data (snd (stepElectric dt s)))\<lparr>permittivity := p, permeability := q\<rparr>\<rparr>) \<and>
            stepMagnetic dt (s\<lparr>data := (data s)\<lparr>permittivity := p, permeability := q\<rparr>\<rparr>) =
              (fst (stepMagnetic dt s),
               (snd (stepMagnetic dt s))\<lparr>data := (data (snd (stepMagnetic dt s)))\<lparr>permittivity := p, permeability := q\<rparr>\<rparr>))"
proof -
  obtain nx ny nz where gs: "gridSize = (nx, ny, nz)" by (cases gridSize)
  have z: "zeroFilled (makeField3D gridSize (\<lambda>_. 0))"
    by (simp add: gs makeField3D_tab zeroFilled_tab)
  from assms have "permittivity (data s0) = makeField3D gridSize (\<lambda>_. 0)"
    and "permeability (data s0) = makeField3D gridSize (\<lambda>_. 0)"
    by (auto simp: newFDTDSimulator_def)
  with performAll_material [of calls s0] z show ?thesis
    by (simp add: hasGridShape_makeField3D stepElectric_ignores_material stepMagnetic_ignores_material)
qed

text \<open>The statement on the grid \<open>(2, 3, 4)\<close> after an electric and a magnetic half-step.\<close>

theorem material_fields_inert_witness:
  "newFDTDSimulator (2, 3, 4) 1 = Some (the (newFDTDSimulator (2, 3, 4) 1)) \<and>
   permittivity (data (performAll [StepElectric (1 / 10), StepMagnetic (1 / 10)]
     (the (newFDTDSimulator (2, 3, 4) 1)))) = makeField3D (2, 3, 4) (\<lambda>_. 0) \<and>
   permeability (data (performAll [StepElectric (1 / 10), StepMagnetic (1 / 10)]
     (the (newFDTDSimulator (2, 3, 4) 1)))) = makeField3D (2, 3, 4) (\<lambda>_. 0) \<and>
   zeroFilled (makeField3D (2, 3, 4) (\<lambda>_. 0))"
proof -
  have new: "newFDTDSimulator (2, 3, 4) 1 = Some (the (newFDTDSimulator (2, 3, 4) 1))"
    by (simp add: newFDTDSimulator_def)
  from material_fields_inert [OF new, of "[StepElectric (1 / 10), StepMagnetic (1 / 10)]"] new
  show ?thesis by blast
qed

section \<open>The stencils\<close>

lemma hasGridShape_put3: "hasGridShape gs f \<Longrightarrow> hasGridShape gs (put3 f i j k v)"
  by (cases gs) (simp add: hasShape_put3)

lemma setElectricFieldZ_gridShaped:
  "gridShaped s \<Longrightarrow> gridShaped (setElectricFieldZ x y z v s) \<and>
     kernelOutput (setElectricFieldZ x y z v s) = kernelOutput s \<and>
     cellSize (setElectricFieldZ x y z v s) = cellSize s"
  by (simp add: gridShaped_def setElectricFieldZ_def hasGridShape_put3)

lemma stepMagnetic_magneticFieldX:
  assumes "gridShaped s" and "kernelOutput s = (nx, ny, nz)" and "0 < ny" and "0 < nz"
  shows "magneticFieldX (data (snd (stepMagnetic dt s))) =
    tab (nat nx) (nat ny) (nat nz) (\<lambda>x y z.
      magneticFieldX (data s) ! x ! y ! z
        - dt * (((if y + 1 < nat ny then electricFieldZ (data s) ! x ! (y + 1) ! z else 0)
                   - electricFieldZ (data s) ! x ! y ! z)
              - ((if z + 1 < nat nz then electricFieldY (data s) ! x ! y ! (z + 1) else 0)
                   - electricFieldY (data s) ! x ! y ! z)) / cellSize s)"
  by (simp add: stepMagnetic_result [OF assms])

lemma setMagneticFieldZ_gridShaped:
  "gridShaped s \<Longrightarrow> gridShaped (setMagneticFieldZ x y z v s) \<and>
     kernelOutput (setMagneticFieldZ x y z v s) = kernelOutput s \<and>
     cellSize (setMagneticFieldZ x y z v s) = cellSize s"
  by (simp add: gridShaped_def setMagneticFieldZ_def hasGridShape_put3)

lemma boundaryExample_state:
  shows "gridShaped boundaryExample"
    and "kernelOutput boundaryExample = (2, 2, 2)"
    and "cellSize boundaryExample = 1"
proof -
  have new: "newFDTDSimulator (2, 2, 2) 1 = Some (the (newFDTDSimulator (2, 2, 2) 1))"
    by (simp add: newFDTDSimulator_def)
  from newFDTDSimulator_gridShaped [OF new]
    setElectricFieldZ_gridShaped [of "the (newFDTDSimulator (2, 2, 2) 1)" 0 1 1 5]
  show "gridShaped boundaryExample" and "kernelOutput boundaryExample = (2, 2, 2)"
    and "cellSize boundaryExample = 1"
    by (simp_all add: boundaryExample_def)
qed

lemma boundaryExample_fields:
  shows "electricFieldX (data boundaryExample) = tab 2 2 2 (\<lambda>_ _ _. 0)"
    and "electricFieldY (data boundaryExample) = tab 2 2 2 (\<lambda>_ _ _. 0)"
    and "electricFieldZ (data boundaryExample) = tab 2 2 2 (\<lambda>i j k. if i = 0 \<and> j = 1 \<and> k = 1 then 5 else 0)"
    and "magneticFieldX (data boundaryExample) = tab 2 2 2 (\<lambda>_ _ _. 0)"
    and "magneticFieldY (data boundaryExample) = tab 2 2 2 (\<lambda>_ _ _. 0)"
    and "magneticFieldZ (data boundaryExample) = tab 2 2 2 (\<lambda>_ _ _. 0)"
  by (simp_all add: boundaryExample_def newFDTDSimulator_def setElectricFieldZ_def
      makeField3D_tab put3_tab)

lemma boundaryExample_magneticFieldX:
  shows "magneticFieldX (data (snd (stepMagnetic (1 / 10) boundaryExample))) ! 0 ! 1 ! 1 = 1 / 2"
    and "magneticFieldX (data (snd (stepMagnetic (1 / 10) boundaryExample))) ! 0 ! 0 ! 1 = - 1 / 2"
proof -
  have "magneticFieldX (data (snd (stepMagnetic (1 / 10) boundaryExample))) =
    tab (nat 2) (nat 2) (nat 2) (\<lambda>x y z.
      magneticFieldX (data boundaryExample) ! x ! y ! z
        - (1 / 10) * (((if y + 1 < nat 2 then electricFieldZ (data boundaryExample) ! x ! (y + 1) ! z else 0)
                   - electricFieldZ (data boundaryExample) ! x ! y ! z)
              - ((if z + 1 < nat 2 then electricFieldY (data boundaryExample) ! x ! y ! (z + 1) else 0)
                   - electricFieldY (data boundaryExample) ! x ! y ! z)) / cellSize boundaryExample)"
    by (rule stepMagnetic_magneticFieldX [OF boundaryExample_state(1,2)]) simp_all
  note hx = this [unfolded boundaryExample_fields boundaryExample_state(3)]
  show "magneticFieldX (data (snd (stepMagnetic (1 / 10) boundaryExample))) ! 0 ! 1 ! 1 = 1 / 2"
    unfolding hx by (simp add: tab_nth)
  show "magneticFieldX (data (snd (stepMagnetic (1 / 10) boundaryExample))) ! 0 ! 0 ! 1 = - 1 / 2"
    unfolding hx by (simp add: tab_nth)
qed

text \<open>
  Claim C2. For every state whose eight fields have the grid's shape, every \<open>dt\<close> and
  every cell \<open>(x, y, z)\<close> of the grid, \<open>stepMagnetic(dt)\<close> returns and the new magnetic
  components at the cell are the forward-difference stencils of the specification over
  the old fields, a neighbour at index + 1 counting as 0 when that index is out of range.
  The cell size is taken to be non-zero.
\<close>

theorem stepMagnetic_stencil:
  assumes "gridShaped s" and "kernelOutput s = (nx, ny, nz)" and "cellSize s \<noteq> 0"
    and "x < nat nx" and "y < nat ny" and "z < nat nz"
  shows "fst (stepMagnetic dt s) = Returned \<and>
    magneticFieldX (data (snd (stepMagnetic dt s))) ! x ! y ! z =
      magneticFieldX (data s) ! x ! y ! z
        - (dt / cellSize s) *
          (((if y + 1 < nat ny then electricFieldZ (data s) ! x ! (y + 1) ! z else 0)
              - electricFieldZ (data s) ! x ! y ! z)
           - ((if z + 1 < nat nz then electricFieldY (data s) ! x ! y ! (z + 1) else 0)
              - electricFieldY (data s) ! x ! y ! z)) \<and>
    magneticFieldY (data (snd (stepMagnetic dt s))) ! x ! y ! z =
      magneticFieldY (data s) ! x ! y ! z
        - (dt / cellSize s) *
          (((if z + 1 < nat nz then electricFieldX (data s) ! x ! y ! (z + 1) else 0)
              - electricFieldX (data s) ! x ! y ! z)
           - ((if x + 1 < nat nx then electricFieldZ (data s) ! (x + 1) ! y ! z else 0)
              - electricFieldZ (data s) ! x ! y ! z)) \<and>
    magneticFieldZ (data (snd (stepMagnetic dt s))) ! x ! y ! z =
      magneticFieldZ (data s) ! x ! y ! z
        - (dt / cellSize s) *
          (((if x + 1 < nat nx then electricFieldY (data s) ! (x + 1) ! y ! z else 0)
              - electricFieldY (data s) ! x ! y ! z)
           - ((if y + 1 < nat ny then electricFieldX (data s) ! x ! (y + 1) ! z else 0)
              - electricFieldX (data s) ! x ! y ! z))"
proof -
  from assms have ny: "0 < ny" and nz: "0 < nz" by simp_all
  show ?thesis
    unfolding stepMagnetic_result [OF assms(1,2) ny nz]
    using assms(4-6) by (simp add: tab_nth)
qed

text \<open>
  The statement at the boundary example, cell \<open>(0, 1, 1)\<close>, \<open>dt = 1/10\<close>: the neighbours at
  \<open>y + 1\<close> and \<open>z + 1\<close> are out of range, and \<open>Hx\<close> becomes \<open>0 - (1/10) * ((0 - 5) - (0 - 0)) = 1/2\<close>.
\<close>

theorem stepMagnetic_stencil_witness:
  "gridShaped boundaryExample \<and> kernelOutput boundaryExample = (2, 2, 2) \<and>
   cellSize boundaryExample \<noteq> 0 \<and> 0 < nat 2 \<and> 1 < nat 2 \<and>
   fst (stepMagnetic (1 / 10) boundaryExample) = Returned \<and>
   magneticFieldX (data (snd (stepMagnetic (1 / 10) boundaryExample))) ! 0 ! 1 ! 1 = 1 / 2 \<and>
   magneticFieldY (data (snd (stepMagnetic (1 / 10) boundaryExample))) ! 0 ! 1 ! 1 = - 1 / 2 \<and>
   magneticFieldZ (data (snd (stepMagnetic (1 / 10) boundaryExample))) ! 0 ! 1 ! 1 = 0"
proof -
  have cs: "cellSize boundaryExample \<noteq> 0"
    by (simp add: boundaryExample_state)
  note w = stepMagnetic_stencil [OF boundaryExample_state(1,2) cs, of 0 1 1 "1 / 10",
      unfolded boundaryExample_fields boundaryExample_state(3)]
  have "0 < nat 2" and "1 < nat 2" by simp_all
  with w cs boundaryExample_state show ?thesis
    by (simp add: tab_nth)
qed

text \<open>
  Claim C3. For every state whose eight fields have the grid's shape, every \<open>dt\<close> and
  every cell \<open>(x, y, z)\<close> of the grid, \<open>stepElectric(dt)\<close> returns and the new electric
  components at the cell are the backward-difference stencils of the specification over
  the old fields, a neighbour at index - 1 counting as 0 when that index is below 0.
  The cell size is taken to be non-zero.
\<close>

theorem stepElectric_stencil:
  assumes "gridShaped s" and "kernelOutput s = (nx, ny, nz)" and "cellSize s \<noteq> 0"
    and "x < nat nx" and "y < nat ny" and "z < nat nz"
  shows "fst (stepElectric dt s) = Returned \<and>
    electricFieldX (data (snd (stepElectric dt s))) ! x ! y ! z =
      electricFieldX (data s) ! x ! y ! z
        + (dt / cellSize s) *
          ((magneticFieldZ (data s) ! x ! y ! z
              - (if 0 < y then magneticFieldZ (data s) ! x ! (y - 1) ! z else 0))
           - (magneticFieldY (data s) ! x ! y ! z
              - (if 0 < z then magneticFieldY (data s) ! x ! y ! (z - 1) else 0))) \<and>
    electricFieldY (data (snd (stepElectric dt s))) ! x ! y ! z =
      electricFieldY (data s) ! x ! y ! z
        + (dt / cellSize s) *
          ((magneticFieldX (data s) ! x ! y ! z
              - (if 0 < z then magneticFieldX (data s) ! x ! y ! (z - 1) else 0))
           - (magneticFieldZ (data s) ! x ! y ! z
              - (if 0 < x then magneticFieldZ (data s) ! (x - 1) ! y ! z else 0))) \<and>
    electricFieldZ (data (snd (stepElectric dt s))) ! x ! y ! z =
      electricFieldZ (data s) ! x ! y ! z
        + (dt / cellSize s) *
          ((magneticFieldY (data s) ! x ! y ! z
              - (if 0 < x then magneticFieldY (data s) ! (x - 1) ! y ! z else 0))
           - (magneticFieldX (data s) ! x ! y ! z
              - (if 0 < y then magneticFieldX (data s) ! x ! (y - 1) ! z else 0)))"
proof -
  from assms have ny: "0 < ny" and nz: "0 < nz" by simp_all
  show ?thesis
    unfolding stepElectric_result [OF assms(1,2) ny nz]
    using assms(4-6) by (simp add: tab_nth)
qed

text \<open>
  The statement on the grid \<open>(2, 2, 2)\<close> with \<open>Hz[0][0][1] = 5\<close>, at the cell \<open>(0, 0, 1)\<close>,
  \<open>dt = 1/10\<close>: the neighbours at \<open>x - 1\<close> and \<open>y - 1\<close> are below 0, and \<open>Ex\<close> becomes
  \<open>0 + (1/10) * ((5 - 0) - (0 - 0)) = 1/2\<close>.
\<close>

theorem stepElectric_stencil_witness:
  "gridShaped (setMagneticFieldZ 0 0 1 5 (the (newFDTDSimulator (2, 2, 2) 1))) \<and>
   kernelOutput (setMagneticFieldZ 0 0 1 5 (the (newFDTDSimulator (2, 2, 2) 1))) = (2, 2, 2) \<and>
   cellSize (setMagneticFieldZ 0 0 1 5 (the (newFDTDSimulator (2, 2, 2) 1))) \<noteq> 0 \<and>
   0 < nat 2 \<and> 1 < nat 2 \<and>
   fst (stepElectric (1 / 10) (setMagneticFieldZ 0 0 1 5 (the (newFDTDSimulator (2, 2, 2) 1)))) = Returned \<and>
   electricFieldX (data (snd (stepElectric (1 / 10)
     (setMagneticFieldZ 0 0 1 5 (the (newFDTDSimulator (2, 2, 2) 1)))))) ! 0 ! 0 ! 1 = 1 / 2 \<and>
   electricFieldY (data (snd (stepElectric (1 / 10)
     (setMagneticFieldZ 0 0 1 5 (the (newFDTDSimulator (2, 2, 2) 1)))))) ! 0 ! 0 ! 1 = - 1 / 2 \<and>
   electricFieldZ (data (snd (stepElectric (1 / 10)
     (setMagneticFieldZ 0 0 1 5 (the (newFDTDSimulator (2, 2, 2) 1)))))) ! 0 ! 0 ! 1 = 0"
proof -
  let ?s = "setMagneticFieldZ 0 0 1 5 (the (newFDTDSimulator (2, 2, 2) 1))"
  have new: "newFDTDSimulator (2, 2, 2) 1 = Some (the (newFDTDSimulator (2, 2, 2) 1))"
    by (simp add: newFDTDSimulator_def)
  from newFDTDSimulator_gridShaped [OF new]
    setMagneticFieldZ_gridShaped [of "the (newFDTDSimulator (2, 2, 2) 1)" 0 0 1 5]
  have s: "gridShaped ?s" "kernelOutput ?s = (2, 2, 2)" and c1: "cellSize ?s = 1"
    by simp_all
  then have cs: "cellSize ?s \<noteq> 0" by simp
  have fields: "electricFieldX (data ?s) = tab 2 2 2 (\<lambda>_ _ _. 0)"
    "electricFieldY (data ?s) = tab 2 2 2 (\<lambda>_ _ _. 0)"
    "electricFieldZ (data ?s) = tab 2 2 2 (\<lambda>_ _ _. 0)"
    "magneticFieldX (data ?s) = tab 2 2 2 (\<lambda>_ _ _. 0)"
    "magneticFieldY (data ?s) = tab 2 2 2 (\<lambda>_ _ _. 0)"
    "magneticFieldZ (data ?s) = tab 2 2 2 (\<lambda>i j k. if i = 0 \<and> j = 0 \<and> k = 1 then 5 else 0)"
    by (simp_all add: newFDTDSimulator_def setMagneticFieldZ_def makeField3D_tab put3_tab)
  note w = stepElectric_stencil [OF s cs, of 0 0 1 "1 / 10", unfolded fields c1]
  have "0 < nat 2" and "1 < nat 2" by simp_all
  with w cs s show ?thesis
    by (simp add: tab_nth)
qed

text \<open>
  Claim C4, as amended. On the grid \<open>(2, 2, 2)\<close> with cell size 1, from the constructed
  state with \<open>Ez[0][1][1] = 5\<close> and everything else zero, one call \<open>stepMagnetic(0.1)\<close> gives
  \<open>Hx[0][1][1] = 0 - 0.1 * ((0 - 5) - (0 - 0)) / 1 = 0.5\<close>: this is the cell whose neighbour
  at \<open>y + 1\<close> is out of range and counts as 0. At \<open>Hx[0][0][1]\<close> the neighbour at \<open>y + 1\<close> is the
  cell \<open>Ez[0][1][1] = 5\<close> itself, in range, and the value is
  \<open>0 - 0.1 * ((5 - 0) - (0 - 0)) / 1 = -0.5\<close>.
\<close>

theorem boundary_truncation_example:
  "magneticFieldX (data (snd (stepMagnetic (1 / 10) boundaryExample))) ! 0 ! 1 ! 1 = 1 / 2 \<and>
   magneticFieldX (data (snd (stepMagnetic (1 / 10) boundaryExample))) ! 0 ! 0 ! 1 = - 1 / 2"
  using boundaryExample_magneticFieldX by simp

text \<open>Claim C4 as stated fails: the value of \<open>Hx[0][0][1]\<close> after the call is not 0.5.\<close>

theorem boundary_truncation_counterexample:
  "magneticFieldX (data (snd (stepMagnetic (1 / 10) boundaryExample))) ! 0 ! 0 ! 1 \<noteq> 1 / 2"
  using boundaryExample_magneticFieldX(2) by simp

section \<open>Time accounting\<close>

lemma stepElectric_time:
  assumes "gridShaped s" and "kernelOutput s = (nx, ny, nz)" and "0 < ny" and "0 < nz"
  shows "fst (stepElectric dt s) = Returned \<and>
         time (data (snd (stepElectric dt s))) = time (data s) + dt / 2"
  by (simp add: stepElectric_result [OF assms])

lemma stepMagnetic_time:
  assumes "gridShaped s" and "kernelOutput s = (nx, ny, nz)" and "0 < ny" and "0 < nz"
  shows "fst (stepMagnetic dt s) = Returned \<and>
         time (data (snd (stepMagnetic dt s))) = time (data s) + dt / 2"
  by (simp add: stepMagnetic_result [OF assms])

lemma cycles_time:
  assumes "gridShaped s" and "kernelOutput s = (nx, ny, nz)" and "0 < ny" and "0 < nz"
  shows "time (data (cycles k dt s)) = time (data s) + real k * dt"
  using assms(1,2)
proof (induction k arbitrary: s)
  case 0
  then show ?case by simp
next
  case (Suc k)
  let ?e = "snd (stepElectric dt s)"
  let ?m = "snd (stepMagnetic dt ?e)"
  have e: "gridShaped ?e" "kernelOutput ?e = (nx, ny, nz)"
    using Suc.prems by (simp_all add: stepElectric_gridShaped stepElectric_settings)
  then have m: "gridShaped ?m" "kernelOutput ?m = (nx, ny, nz)"
    by (simp_all add: stepMagnetic_gridShaped stepMagnetic_settings)
  have "time (data ?m) = time (data s) + dt"
    using stepElectric_time [OF Suc.prems assms(3,4), of dt]
      stepMagnetic_time [OF e assms(3,4), of dt] by simp
  with Suc.IH [OF m] show ?case
    by (simp add: algebra_simps)
qed

text \<open>
  Claim C5. On a simulator constructed with three positive dimensions, after any
  sequence of calls, a call of \<open>stepElectric(dt)\<close> and a call of \<open>stepMagnetic(dt)\<close> each
  increase \<open>time\<close> by exactly \<open>dt / 2\<close>; and after \<open>k\<close> full leapfrog cycles from the
  constructed state \<open>time\<close> is \<open>k * dt\<close> (exactly, the numbers being reals).
\<close>

theorem time_accounting:
  assumes "newFDTDSimulator (nx, ny, nz) cs = Some s0" and "0 < nx" and "0 < ny" and "0 < nz"
  shows "time (data (snd (stepElectric dt (performAll calls s0))))
           = time (data (performAll calls s0)) + dt / 2 \<and>
         time (data (snd (stepMagnetic dt (performAll calls s0))))
           = time (data (performAll calls s0)) + dt / 2 \<and>
         time (data (cycles k dt s0)) = real k * dt"
proof -
  from newFDTDSimulator_gridShaped [OF assms(1)]
  have s0: "gridShaped s0" "kernelOutput s0 = (nx, ny, nz)" by simp_all
  with performAll_invariant [of s0 calls]
  have s: "gridShaped (performAll calls s0)" "kernelOutput (performAll calls s0) = (nx, ny, nz)"
    by simp_all
  have "time (data s0) = 0"
    using assms(1) by (auto simp: newFDTDSimulator_def)
  with cycles_time [OF s0 assms(3,4), of k dt]
    stepElectric_time [OF s assms(3,4), of dt] stepMagnetic_time [OF s assms(3,4), of dt]
  show ?thesis by simp
qed

text \<open>The statement on the grid \<open>(2, 2, 2)\<close>: three cycles with \<open>dt = 1/10\<close> end at time 3/10.\<close>

theorem time_accounting_witness:
  "newFDTDSimulator (2, 2, 2) 1 = Some (the (newFDTDSimulator (2, 2, 2) 1)) \<and>
   time (data (snd (stepElectric (1 / 10) (performAll [] (the (newFDTDSimulator (2, 2, 2) 1)))))) = 1 / 20 \<and>
   time (data (snd (stepMagnetic (1 / 10) (performAll [] (the (newFDTDSimulator (2, 2, 2) 1)))))) = 1 / 20 \<and>
   time (data (cycles 3 (1 / 10) (the (newFDTDSimulator (2, 2, 2) 1)))) = 3 / 10"
proof -
  have new: "newFDTDSimulator (2, 2, 2) 1 = Some (the (newFDTDSimulator (2, 2, 2) 1))"
    by (simp add: newFDTDSimulator_def)
  have t0: "time (data (the (newFDTDSimulator (2, 2, 2) 1))) = 0"
    by (simp add: newFDTDSimulator_def)
  from time_accounting [OF new, of "1 / 10" "[]" 3] new t0
  show ?thesis by simp
qed

section \<open>The zero state is a fixed point\<close>

lemma stepElectric_frame:
  "magneticFieldX (data (snd (stepElectric dt s))) = magneticFieldX (data s) \<and>
   magneticFieldY (data (snd (stepElectric dt s))) = magneticFieldY (data s) \<and>
   magneticFieldZ (data (snd (stepElectric dt s))) = magneticFieldZ (data s)"
  by (simp add: stepElectric_def Let_def split: option.split)

lemma stepMagnetic_frame:
  "electricFieldX (data (snd (stepMagnetic dt s))) = electricFieldX (data s) \<and>
   electricFieldY (data (snd (stepMagnetic dt s))) = electricFieldY (data s) \<and>
   electricFieldZ (data (snd (stepMagnetic dt s))) = electricFieldZ (data s)"
  by (simp add: stepMagnetic_def Let_def split: option.split)

lemma stepElectric_zero:
  assumes sh: "gridShaped s" and out: "kernelOutput s = (nx, ny, nz)" and ny: "0 < ny" and nz: "0 < nz"
    and zero: "electricFieldX (data s) = tab (nat nx) (nat ny) (nat nz) (\<lambda>_ _ _. 0)"
      "electricFieldY (data s) = tab (nat nx) (nat ny) (nat nz) (\<lambda>_ _ _. 0)"
      "electricFieldZ (data s) = tab (nat nx) (nat ny) (nat nz) (\<lambda>_ _ _. 0)"
      "magneticFieldX (data s) = tab (nat nx) (nat ny) (nat nz) (\<lambda>_ _ _. 0)"
      "magneticFieldY (data s) = tab (nat nx) (nat ny) (nat nz) (\<lambda>_ _ _. 0)"
      "magneticFieldZ (data s) = tab (nat nx) (nat ny) (nat nz) (\<lambda>_ _ _. 0)"
  shows "fst (stepElectric dt s) = Returned"
    and "electricFieldX (data (snd (stepElectric dt s))) = tab (nat nx) (nat ny) (nat nz) (\<lambda>_ _ _. 0)"
    and "electricFieldY (data (snd (stepElectric dt s))) = tab (nat nx) (nat ny) (nat nz) (\<lambda>_ _ _. 0)"
    and "electricFieldZ (data (snd (stepElectric dt s))) = tab (nat nx) (nat ny) (nat nz) (\<lambda>_ _ _. 0)"
proof -
  note r = stepElectric_result [OF sh out ny nz, of dt, unfolded zero]
  show "fst (stepElectric dt s) = Returned"
    by (simp add: r)
  show "electricFieldX (data (snd (stepElectric dt s))) = tab (nat nx) (nat ny) (nat nz) (\<lambda>_ _ _. 0)"
    unfolding r by simp (rule tab_cong, auto simp: tab_nth)
  show "electricFieldY (data (snd (stepElectric dt s))) = tab (nat nx) (nat ny) (nat nz) (\<lambda>_ _ _. 0)"
    unfolding r by simp (rule tab_cong, auto simp: tab_nth)
  show "electricFieldZ (data (snd (stepElectric dt s))) = tab (nat nx) (nat ny) (nat nz) (\<lambda>_ _ _. 0)"
    unfolding r by simp (rule tab_cong, auto simp: tab_nth)
qed

lemma stepMagnetic_zero:
  assumes sh: "gridShaped s" and out: "kernelOutput s = (nx, ny, nz)" and ny: "0 < ny" and nz: "0 < nz"
    and zero: "electricFieldX (data s) = tab (nat nx) (nat ny) (nat nz) (\<lambda>_ _ _. 0)"
      "electricFieldY (data s) = tab (nat nx) (nat ny) (nat nz) (\<lambda>_ _ _. 0)"
      "electricFieldZ (data s) = tab (nat nx) (nat ny) (nat nz) (\<lambda>_ _ _. 0)"
      "magneticFieldX (data s) = tab (nat nx) (nat ny) (nat nz) (\<lambda>_ _ _. 0)"
      "magneticFieldY (data s) = tab (nat nx) (nat ny) (nat nz) (\<lambda>_ _ _. 0)"
      "magneticFieldZ (data s) = tab (nat nx) (nat ny) (nat nz) (\<lambda>_ _ _. 0)"
  shows "fst (stepMagnetic dt s) = Returned"
    and "magneticFieldX (data (snd (stepMagnetic dt s))) = tab (nat nx) (nat ny) (nat nz) (\<lambda>_ _ _. 0)"
    and "magneticFieldY (data (snd (stepMagnetic dt s))) = tab (nat nx) (nat ny) (nat nz) (\<lambda>_ _ _. 0)"
    and "magneticFieldZ (data (snd (stepMagnetic dt s))) = tab (nat nx) (nat ny) (nat nz) (\<lambda>_ _ _. 0)"
proof -
  note r = stepMagnetic_result [OF sh out ny nz, of dt, unfolded zero]
  show "fst (stepMagnetic dt s) = Returned"
    by (simp add: r)
  show "magneticFieldX (data (snd (stepMagnetic dt s))) = tab (nat nx) (nat ny) (nat nz) (\<lambda>_ _ _. 0)"
    unfolding r by simp (rule tab_cong, auto simp: tab_nth)
  show "magneticFieldY (data (snd (stepMagnetic dt s))) = tab (nat nx) (nat ny) (nat nz) (\<lambda>_ _ _. 0)"
    unfolding r by simp (rule tab_cong, auto simp: tab_nth)
  show "magneticFieldZ (data (snd (stepMagnetic dt s))) = tab (nat nx) (nat ny) (nat nz) (\<lambda>_ _ _. 0)"
    unfolding r by simp (rule tab_cong, auto simp: tab_nth)
qed

text \<open>
  Claim C6. On a simulator constructed with three positive dimensions and a non-zero
  cell size, for every \<open>dt\<close>, \<open>stepElectric(dt)\<close> followed by \<open>stepMagnetic(dt)\<close> both return
  and leave each of the six electric and magnetic fields equal to the all-zero field of
  the grid.
\<close>

theorem zero_fixed_point:
  assumes "newFDTDSimulator (nx, ny, nz) cs = Some s0"
    and "0 < nx" and "0 < ny" and "0 < nz" and "cs \<noteq> 0"
  shows "fst (stepElectric dt s0) = Returned \<and>
         fst (stepMagnetic dt (snd (stepElectric dt s0))) = Returned \<and>
         electricFieldX (data (snd (stepMagnetic dt (snd (stepElectric dt s0))))) = makeField3D (nx, ny, nz) (\<lambda>_. 0) \<and>
         electricFieldY (data (snd (stepMagnetic dt (snd (stepElectric dt s0))))) = makeField3D (nx, ny, nz) (\<lambda>_. 0) \<and>
         electricFieldZ (data (snd (stepMagnetic dt (snd (stepElectric dt s0))))) = makeField3D (nx, ny, nz) (\<lambda>_. 0) \<and>
         magneticFieldX (data (snd (stepMagnetic dt (snd (stepElectric dt s0))))) = makeField3D (nx, ny, nz) (\<lambda>_. 0) \<and>
         magneticFieldY (data (snd (stepMagnetic dt (snd (stepElectric dt s0))))) = makeField3D (nx, ny, nz) (\<lambda>_. 0) \<and>
         magneticFieldZ (data (snd (stepMagnetic dt (snd (stepElectric dt s0))))) = makeField3D (nx, ny, nz) (\<lambda>_. 0) \<and>
         zeroFilled (makeField3D (nx, ny, nz) (\<lambda>_. 0))"
proof -
  let ?Z = "tab (nat nx) (nat ny) (nat nz) (\<lambda>_ _ _. 0::real)"
  let ?s1 = "snd (stepElectric dt s0)"
  from newFDTDSimulator_gridShaped [OF assms(1)]
  have s0: "gridShaped s0" "kernelOutput s0 = (nx, ny, nz)" by simp_all
  have Z: "makeField3D (nx, ny, nz) (\<lambda>_. 0) = ?Z"
    by (simp add: makeField3D_tab)
  have zero: "electricFieldX (data s0) = ?Z" "electricFieldY (data s0) = ?Z"
      "electricFieldZ (data s0) = ?Z" "magneticFieldX (data s0) = ?Z"
      "magneticFieldY (data s0) = ?Z" "magneticFieldZ (data s0) = ?Z"
    using assms(1) by (auto simp: newFDTDSimulator_def makeField3D_tab)
  note e = stepElectric_zero [OF s0 assms(3,4) zero, of dt]
  have s1: "gridShaped ?s1" "kernelOutput ?s1 = (nx, ny, nz)"
    using s0 by (simp_all add: stepElectric_gridShaped stepElectric_settings)
  have zero1: "electricFieldX (data ?s1) = ?Z" "electricFieldY (data ?s1) = ?Z"
      "electricFieldZ (data ?s1) = ?Z" "magneticFieldX (data ?s1) = ?Z"
      "magneticFieldY (data ?s1) = ?Z" "magneticFieldZ (data ?s1) = ?Z"
    using e(2-4) zero(4-6) by (simp_all add: stepElectric_frame)
  note m = stepMagnetic_zero [OF s1 assms(3,4) zero1, of dt]
  show ?thesis
    unfolding Z using e(1) m zero1(1-3) by (simp add: stepMagnetic_frame zeroFilled_tab)
qed

text \<open>The statement on the grid \<open>(2, 2, 2)\<close> with cell size 1 and \<open>dt = 1/10\<close>.\<close>

theorem zero_fixed_point_witness:
  "newFDTDSimulator (2, 2, 2) 1 = Some (the (newFDTDSimulator (2, 2, 2) 1)) \<and>
   fst (stepElectric (1 / 10) (the (newFDTDSimulator (2, 2, 2) 1))) = Returned \<and>
   fst (stepMagnetic (1 / 10) (snd (stepElectric (1 / 10) (the (newFDTDSimulator (2, 2, 2) 1))))) = Returned \<and>
   electricFieldX (data (snd (stepMagnetic (1 / 10) (snd (stepElectric (1 / 10)
     (the (newFDTDSimulator (2, 2, 2) 1))))))) = [[[0, 0], [0, 0]], [[0, 0], [0, 0]]] \<and>
   magneticFieldZ (data (snd (stepMagnetic (1 / 10) (snd (stepElectric (1 / 10)
     (the (newFDTDSimulator (2, 2, 2) 1))))))) = [[[0, 0], [0, 0]], [[0, 0], [0, 0]]]"
proof -
  have new: "newFDTDSimulator (2, 2, 2) 1 = Some (the (newFDTDSimulator (2, 2, 2) 1))"
    by (simp add: newFDTDSimulator_def)
  have z: "makeField3D (2, 2, 2) (\<lambda>_. 0 :: real) = [[[0, 0], [0, 0]], [[0, 0], [0, 0]]]"
    by (simp add: makeField3D.simps upt_rec)
  from zero_fixed_point [OF new, of "1 / 10"] new
  show ?thesis by (simp add: z)
qed

end
